theory Spec2Isabelle
  imports Main "HOL-Library.Sublist" "HOL-Library.AList"
begin

section \<open>The Fish tokenizer: module constants\<close>

text \<open>
  A shallow embedding of \<^verbatim>\<open>src/transformers/models/fish/tokenization_fish.py\<close>.
  Python strings are modelled as \<^typ>\<open>string\<close>, Python's unbounded integers as
  \<^typ>\<open>int\<close> and \<^typ>\<open>nat\<close>, exceptions as values of the type \<open>py_error\<close>.
\<close>

subsection \<open>Decimal formatting (\<^verbatim>\<open>str(i)\<close>, \<^verbatim>\<open>format(i=i)\<close>, f-strings)\<close>

definition digit_char :: "nat \<Rightarrow> char" where
  "digit_char d = ''0123456789'' ! d"

function str_nat :: "nat \<Rightarrow> string" where
  "str_nat n = (if n < 10 then [digit_char n] else str_nat (n div 10) @ [digit_char (n mod 10)])"
  by pat_completeness auto
termination
  by (relation "measure id") auto

declare str_nat.simps [simp del]

definition str_int :: "int \<Rightarrow> string" where
  "str_int i = (if i < 0 then CHR ''-'' # str_nat (nat (- i)) else str_nat (nat i))"

subsection \<open>Lines 24--63: the constants\<close>

definition TIKTOKEN_MAX_ENCODE_CHARS :: nat where
  "TIKTOKEN_MAX_ENCODE_CHARS = 400000"

definition BOS_TOKEN :: string where "BOS_TOKEN = ''<|begin_of_text|>''"
definition EOS_TOKEN :: string where "EOS_TOKEN = ''<|end_of_text|>''"
definition PAD_TOKEN :: string where "PAD_TOKEN = ''<|pad|>''"
definition IM_START_TOKEN :: string where "IM_START_TOKEN = ''<|im_start|>''"
definition IM_END_TOKEN :: string where "IM_END_TOKEN = ''<|im_end|>''"

definition MODALITY_TEXT_TOKEN :: string where "MODALITY_TEXT_TOKEN = ''<|text|>''"
definition MODALITY_VOICE_TOKEN :: string where "MODALITY_VOICE_TOKEN = ''<|voice|>''"
definition MODALITY_INTERLEAVE_TOKEN :: string where
  "MODALITY_INTERLEAVE_TOKEN = ''<|interleave|>''"

text \<open>\<^verbatim>\<open>PLACEHOLDER_TOKEN[i] = f"<|placeholder:{i}|>"\<close> for \<open>i\<close> in \<open>range(4)\<close>.\<close>

definition PLACEHOLDER_TOKEN :: "string list" where
  "PLACEHOLDER_TOKEN = map (\<lambda>i. ''<|placeholder:'' @ str_nat i @ ''|>'') [0..<4]"

definition SEMANTIC_TOKEN_TEMPLATE :: "nat \<Rightarrow> string" where
  "SEMANTIC_TOKEN_TEMPLATE i = ''<|semantic:'' @ str_nat i @ ''|>''"

definition SEMANTIC_TOKENS :: "string list" where
  "SEMANTIC_TOKENS = map SEMANTIC_TOKEN_TEMPLATE [0..<1024]"

definition ALL_SPECIAL_TOKENS :: "string list" where
  "ALL_SPECIAL_TOKENS =
     [BOS_TOKEN, EOS_TOKEN, PAD_TOKEN, IM_START_TOKEN, IM_END_TOKEN,
      PLACEHOLDER_TOKEN ! 0, PLACEHOLDER_TOKEN ! 1, PLACEHOLDER_TOKEN ! 2, PLACEHOLDER_TOKEN ! 3,
      MODALITY_TEXT_TOKEN, MODALITY_VOICE_TOKEN, MODALITY_INTERLEAVE_TOKEN]
     @ SEMANTIC_TOKENS"

section \<open>Chunking: \<^verbatim>\<open>tokenize\<close> (lines 98--102)\<close>

text \<open>
  The loop \<^verbatim>\<open>for i in range(0, len(text), N): subs.append(text[i : i + N])\<close>, with the
  loop index and the accumulated list as arguments. A slice \<^verbatim>\<open>text[i : i + N]\<close> with
  \<open>i \<le> len(text)\<close> is \<open>take N (drop i text)\<close>.
\<close>

function tokenize_loop :: "string \<Rightarrow> nat \<Rightarrow> string list \<Rightarrow> string list" where
  "tokenize_loop text i subs =
     (if i < length text
      then tokenize_loop text (i + TIKTOKEN_MAX_ENCODE_CHARS)
             (subs @ [take TIKTOKEN_MAX_ENCODE_CHARS (drop i text)])
      else subs)"
  by pat_completeness auto
termination
  by (relation "measure (\<lambda>(text, i, subs). length text - i)")
     (auto simp: TIKTOKEN_MAX_ENCODE_CHARS_def)

declare tokenize_loop.simps [simp del]

definition tokenize :: "string \<Rightarrow> string list" where
  "tokenize text = tokenize_loop text 0 []"

section \<open>The Python runtime the module relies on\<close>

subsection \<open>Exceptions as values\<close>

text \<open>
  Every exception a statement of the module can raise is a constructor.
  \<open>DisallowedSpecialToken\<close> is the \<^verbatim>\<open>ValueError\<close> that tiktoken's
  \<^verbatim>\<open>raise_disallowed_special_token\<close> raises (the specification's
  \<^verbatim>\<open>DisallowedSpecialTokenError\<close>); \<open>TiktokenError\<close> is any other failure inside the
  tiktoken library. \<open>ModelNotFoundError\<close> is the error kind the specification names for a
  missing model file: no statement of the module raises it.
\<close>

datatype py_error =
    NameError string
  | KeyError string
  | ValueError string
  | Base64Error
  | AssertionError
  | UnboundLocalError string
  | TypeError string
  | FileNotFoundError
  | IsADirectoryError
  | NotADirectoryError
  | FileExistsError
  | DisallowedSpecialToken
  | TiktokenError
  | ModelNotFoundError

type_synonym 'a result = "py_error + 'a"

subsection \<open>Dictionaries\<close>

text \<open>
  A Python \<^verbatim>\<open>dict\<close> keeps its keys in insertion order, and an assignment to a key that
  is present replaces the value in place: the association list with \<^const>\<open>AList.update\<close>.
\<close>

type_synonym ('k, 'v) dict = "('k \<times> 'v) list"

definition dict_of_items :: "('k \<times> 'v) list \<Rightarrow> ('k, 'v) dict" where
  "dict_of_items kvs = fold (\<lambda>(k, v) d. AList.update k v d) kvs []"

definition dict_get :: "(string, 'v) dict \<Rightarrow> string \<Rightarrow> 'v result" where
  "dict_get d k = (case map_of d k of None \<Rightarrow> Inl (KeyError k) | Some v \<Rightarrow> Inr v)"

subsection \<open>Strings: \<^verbatim>\<open>str.splitlines\<close>, \<^verbatim>\<open>str.split\<close>, \<^verbatim>\<open>int\<close>, \<^verbatim>\<open>str.join\<close>\<close>

definition LF :: char where "LF = CHR 0x0A"
definition CR :: char where "CR = CHR 0x0D"

definition is_linebreak :: "char \<Rightarrow> bool" where
  "is_linebreak c \<longleftrightarrow>
     c \<in> set [CHR 0x0A, CHR 0x0B, CHR 0x0C, CHR 0x0D, CHR 0x1C, CHR 0x1D, CHR 0x1E, CHR 0x85]"

definition is_space :: "char \<Rightarrow> bool" where
  "is_space c \<longleftrightarrow>
     c \<in> set [CHR 0x09, CHR 0x0A, CHR 0x0B, CHR 0x0C, CHR 0x0D, CHR 0x1C, CHR 0x1D, CHR 0x1E,
              CHR 0x1F, CHR 0x20, CHR 0x85, CHR 0xA0]"

text \<open>Reading a file opened in text mode turns \<^verbatim>\<open>\r\n\<close> and \<^verbatim>\<open>\r\<close> into \<^verbatim>\<open>\n\<close>.\<close>

fun universal_newlines :: "string \<Rightarrow> string" where
  "universal_newlines [] = []"
| "universal_newlines [c] = [if c = CR then LF else c]"
| "universal_newlines (c # d # cs) =
     (if c = CR \<and> d = LF then LF # universal_newlines cs
      else if c = CR then LF # universal_newlines (d # cs)
      else c # universal_newlines (d # cs))"

text \<open>\<^verbatim>\<open>str.splitlines()\<close>: the first argument is the line read so far.\<close>

fun splitlines_from :: "string \<Rightarrow> string \<Rightarrow> string list" where
  "splitlines_from cur [] = (if cur = [] then [] else [cur])"
| "splitlines_from cur [c] = (if is_linebreak c then [cur] else [cur @ [c]])"
| "splitlines_from cur (c # d # cs) =
     (if c = CR \<and> d = LF then cur # splitlines_from [] cs
      else if is_linebreak c then cur # splitlines_from [] (d # cs)
      else splitlines_from (cur @ [c]) (d # cs))"

definition splitlines :: "string \<Rightarrow> string list" where
  "splitlines s = splitlines_from [] s"

text \<open>\<^verbatim>\<open>str.split()\<close> with no argument: the runs of characters that are not white space.\<close>

fun split_from :: "string \<Rightarrow> string \<Rightarrow> string list" where
  "split_from cur [] = (if cur = [] then [] else [cur])"
| "split_from cur (c # cs) =
     (if is_space c then (if cur = [] then split_from [] cs else cur # split_from [] cs)
      else split_from (cur @ [c]) cs)"

definition split :: "string \<Rightarrow> string list" where
  "split s = split_from [] s"

text \<open>
  \<^verbatim>\<open>int(s)\<close> for a string without white space: an optional sign, then decimal digits, where
  single underscores may stand between digits.
\<close>

definition is_digit :: "char \<Rightarrow> bool" where
  "is_digit c \<longleftrightarrow> c \<in> set ''0123456789''"

definition digit_val :: "char \<Rightarrow> nat" where
  "digit_val c = of_char c - 48"

fun parse_digits :: "nat \<Rightarrow> string \<Rightarrow> nat option" where
  "parse_digits acc [] = Some acc"
| "parse_digits acc [c] = (if is_digit c then Some (10 * acc + digit_val c) else None)"
| "parse_digits acc (c # d # cs) =
     (if is_digit c then parse_digits (10 * acc + digit_val c) (d # cs)
      else if c = CHR ''_'' \<and> is_digit d then parse_digits acc (d # cs)
      else None)"

definition parse_nat :: "string \<Rightarrow> nat option" where
  "parse_nat s =
     (case s of [] \<Rightarrow> None
      | c # cs \<Rightarrow> if is_digit c then parse_digits (digit_val c) cs else None)"

definition py_int :: "string \<Rightarrow> int result" where
  "py_int s =
     (case (case s of [] \<Rightarrow> None
            | c # cs \<Rightarrow>
                if c = CHR ''-'' then map_option (\<lambda>n. - int n) (parse_nat cs)
                else if c = CHR ''+'' then map_option int (parse_nat cs)
                else map_option int (parse_nat s))
      of None \<Rightarrow> Inl (ValueError ''invalid literal for int() with base 10'')
       | Some i \<Rightarrow> Inr i)"

fun str_join :: "string \<Rightarrow> string list \<Rightarrow> string" where
  "str_join sep [] = []"
| "str_join sep [x] = x"
| "str_join sep (x # y # ys) = x @ sep @ str_join sep (y # ys)"

subsection \<open>\<^verbatim>\<open>base64.b64encode\<close> and \<^verbatim>\<open>base64.b64decode\<close>\<close>

text \<open>Bytes are lists of 8-bit characters; \<^term>\<open>of_char c :: nat\<close> is the value of a byte.\<close>

type_synonym bytes = "char list"

definition b64_alphabet :: string where
  "b64_alphabet = ''ABCDEFGHIJKLMNOPQRSTUVWXYZabcdefghijklmnopqrstuvwxyz0123456789+/''"

definition b64_char :: "nat \<Rightarrow> char" where
  "b64_char n = b64_alphabet ! n"

definition b64_val :: "char \<Rightarrow> nat option" where
  "b64_val c = map_of (zip b64_alphabet [0..<64]) c"

fun b64encode :: "bytes \<Rightarrow> string" where
  "b64encode [] = []"
| "b64encode [a] =
     (let x = (of_char a :: nat)
      in [b64_char (x div 4), b64_char (x mod 4 * 16), CHR ''='', CHR ''=''])"
| "b64encode [a, b] =
     (let x = (of_char a :: nat); y = (of_char b :: nat)
      in [b64_char (x div 4), b64_char (x mod 4 * 16 + y div 16), b64_char (y mod 16 * 4),
          CHR ''=''])"
| "b64encode (a # b # c # rest) =
     (let x = (of_char a :: nat); y = (of_char b :: nat); z = (of_char c :: nat)
      in [b64_char (x div 4), b64_char (x mod 4 * 16 + y div 16),
          b64_char (y mod 16 * 4 + z div 64), b64_char (z mod 64)] @ b64encode rest)"

text \<open>
  \<^verbatim>\<open>binascii.a2b_base64\<close> as \<^verbatim>\<open>b64decode\<close> calls it (not strict): characters outside the
  alphabet are skipped, a complete padding ends the data, and data that ends inside a group of
  four is an error. The arguments are the position in the group, the bits left over, the
  padding characters seen, the input and the bytes decoded so far.
\<close>

fun a2b_base64 :: "nat \<Rightarrow> nat \<Rightarrow> nat \<Rightarrow> string \<Rightarrow> bytes \<Rightarrow> bytes result" where
  "a2b_base64 quad_pos leftchar pads [] out =
     (if quad_pos = 0 then Inr out else Inl Base64Error)"
| "a2b_base64 quad_pos leftchar pads (ch # rest) out =
     (if ch = CHR ''='' then
        (if quad_pos \<ge> 2 \<and> quad_pos + (pads + 1) \<ge> 4 then Inr out
         else if quad_pos \<ge> 2 then a2b_base64 quad_pos leftchar (pads + 1) rest out
         else a2b_base64 quad_pos leftchar pads rest out)
      else
        (case b64_val ch of
           None \<Rightarrow> a2b_base64 quad_pos leftchar pads rest out
         | Some v \<Rightarrow>
             if quad_pos = 0 then a2b_base64 1 v 0 rest out
             else if quad_pos = 1 then
               a2b_base64 2 (v mod 16) 0 rest (out @ [char_of (leftchar * 4 + v div 16)])
             else if quad_pos = 2 then
               a2b_base64 3 (v mod 4) 0 rest (out @ [char_of (leftchar * 16 + v div 4)])
             else a2b_base64 0 0 0 rest (out @ [char_of (leftchar * 64 + v)])))"

definition b64decode :: "string \<Rightarrow> bytes result" where
  "b64decode s =
     (if list_all (\<lambda>c. (of_char c :: nat) < 128) s then a2b_base64 0 0 0 s []
      else Inl (ValueError ''string argument should contain only ASCII characters''))"

subsection \<open>Files\<close>

datatype fs_node = File string | Dir

type_synonym path = "string list"

type_synonym filesystem = "path \<Rightarrow> fs_node option"

definition isfile :: "filesystem \<Rightarrow> path \<Rightarrow> bool" where
  "isfile fs p = (case fs p of Some (File c) \<Rightarrow> True | _ \<Rightarrow> False)"

text \<open>A path that leads through a regular file: one of its proper prefixes is a file.\<close>

definition below_file :: "filesystem \<Rightarrow> path \<Rightarrow> bool" where
  "below_file fs p =
     list_ex (\<lambda>q. case fs q of Some (File c) \<Rightarrow> True | _ \<Rightarrow> False) (butlast (prefixes p))"

text \<open>
  \<^verbatim>\<open>open(p).read()\<close>: a path that names nothing raises \<^verbatim>\<open>NotADirectoryError\<close> when it leads
  through a regular file and \<^verbatim>\<open>FileNotFoundError\<close> otherwise.
\<close>

definition open_read :: "filesystem \<Rightarrow> path \<Rightarrow> string result" where
  "open_read fs p =
     (case fs p of
        None \<Rightarrow> if below_file fs p then Inl NotADirectoryError else Inl FileNotFoundError
      | Some Dir \<Rightarrow> Inl IsADirectoryError
      | Some (File c) \<Rightarrow> Inr (universal_newlines c))"

text \<open>\<^verbatim>\<open>open(p, "w")\<close>, the writes, and the close.\<close>

definition open_write :: "filesystem \<Rightarrow> path \<Rightarrow> string \<Rightarrow> filesystem result" where
  "open_write fs p content =
     (case fs p of
        Some Dir \<Rightarrow> Inl IsADirectoryError
      | _ \<Rightarrow> (case fs (butlast p) of
                Some Dir \<Rightarrow> Inr (fs(p \<mapsto> File content))
              | Some (File c) \<Rightarrow> Inl NotADirectoryError
              | None \<Rightarrow> if butlast p = [] then Inr (fs(p \<mapsto> File content))
                        else Inl FileNotFoundError))"

text \<open>
  \<^verbatim>\<open>Path.mkdir(parents=True, exist_ok=True)\<close>: every prefix of the path becomes a directory;
  a prefix that is a file is an error.
\<close>

fun mkdir_from :: "filesystem \<Rightarrow> path \<Rightarrow> string list \<Rightarrow> filesystem result" where
  "mkdir_from fs done [] = Inr fs"
| "mkdir_from fs done (x # xs) =
     (case fs (done @ [x]) of
        Some (File c) \<Rightarrow> Inl (if xs = [] then FileExistsError else NotADirectoryError)
      | _ \<Rightarrow> mkdir_from (fs(done @ [x] \<mapsto> Dir)) (done @ [x]) xs)"

definition mkdir_parents :: "filesystem \<Rightarrow> path \<Rightarrow> filesystem result" where
  "mkdir_parents fs p = mkdir_from fs [] p"

text \<open>\<^verbatim>\<open>Path(p).stem\<close>: the last component without its last suffix.\<close>

definition last_dot :: "string \<Rightarrow> nat option" where
  "last_dot name =
     (case filter (\<lambda>i. name ! i = CHR ''.'') (rev [0..<length name]) of
        [] \<Rightarrow> None | i # _ \<Rightarrow> Some i)"

definition stem :: "path \<Rightarrow> string" where
  "stem p =
     (if p = [] then []
      else (case last_dot (last p) of
              None \<Rightarrow> last p
            | Some i \<Rightarrow> if 0 < i \<and> i < length (last p) - 1 then take i (last p) else last p))"

subsection \<open>\<^verbatim>\<open>json.dump(d, f, indent=2, ensure_ascii=False)\<close> for a dictionary from strings to integers\<close>

definition hex_digit :: "nat \<Rightarrow> char" where
  "hex_digit n = ''0123456789abcdef'' ! n"

definition json_escape_char :: "char \<Rightarrow> string" where
  "json_escape_char c =
     (if c = CHR 0x22 then [CHR 0x5C, CHR 0x22]
      else if c = CHR 0x5C then [CHR 0x5C, CHR 0x5C]
      else if c = CHR 0x08 then [CHR 0x5C, CHR ''b'']
      else if c = CHR 0x0C then [CHR 0x5C, CHR ''f'']
      else if c = CHR 0x0A then [CHR 0x5C, CHR ''n'']
      else if c = CHR 0x0D then [CHR 0x5C, CHR ''r'']
      else if c = CHR 0x09 then [CHR 0x5C, CHR ''t'']
      else if (of_char c :: nat) < 32 then
        [CHR 0x5C, CHR ''u'', CHR ''0'', CHR ''0'',
         hex_digit ((of_char c :: nat) div 16), hex_digit ((of_char c :: nat) mod 16)]
      else [c])"

definition json_string :: "string \<Rightarrow> string" where
  "json_string s = [CHR 0x22] @ concat (map json_escape_char s) @ [CHR 0x22]"

definition json_dump_indent2 :: "(string, nat) dict \<Rightarrow> string" where
  "json_dump_indent2 d =
     (if d = [] then ''{}''
      else ''{'' @ [LF]
           @ str_join ('','' @ [LF]) (map (\<lambda>(k, v). ''  '' @ json_string k @ '': '' @ str_nat v) d)
           @ [LF] @ ''}'')"

section \<open>The tiktoken library\<close>

text \<open>
  \<^verbatim>\<open>tiktoken\<close> is not part of the module. Its Python layer (\<^verbatim>\<open>Encoding.__init__\<close>,
  \<^verbatim>\<open>encode\<close>, \<^verbatim>\<open>encode_batch\<close>, \<^verbatim>\<open>decode\<close>, \<^verbatim>\<open>special_tokens_set\<close>) is modelled as it
  treats its arguments; the compiled byte-pair encoder behind it is a parameter: a value of
  \<open>tiktoken_lib\<close> builds, from the ranks, the special tokens and the pattern, the two
  functions of the compiled object, or fails. Every theorem below holds for every such
  parameter.
\<close>

record tkt_core =
  core_encode :: "string \<Rightarrow> string set \<Rightarrow> nat list option"
  core_decode :: "nat list \<Rightarrow> string option"

record encoding =
  enc_name :: string
  enc_pat_str :: string
  enc_mergeable_ranks :: "(bytes, int) dict"
  enc_special_tokens :: "(string, nat) dict"
  enc_core :: tkt_core

type_synonym tiktoken_lib =
  "(bytes, int) dict \<Rightarrow> (string, nat) dict \<Rightarrow> string \<Rightarrow> tkt_core option"

definition tkt_Encoding ::
  "tiktoken_lib \<Rightarrow> string \<Rightarrow> string \<Rightarrow> (bytes, int) dict \<Rightarrow> (string, nat) dict \<Rightarrow> encoding result"
where
  "tkt_Encoding lib name pat_str mergeable_ranks special_tokens =
     (case lib mergeable_ranks special_tokens pat_str of
        None \<Rightarrow> Inl TiktokenError
      | Some core \<Rightarrow>
          Inr \<lparr>enc_name = name, enc_pat_str = pat_str, enc_mergeable_ranks = mergeable_ranks,
               enc_special_tokens = special_tokens, enc_core = core\<rparr>)"

definition special_tokens_set :: "encoding \<Rightarrow> string set" where
  "special_tokens_set enc = set (map fst (enc_special_tokens enc))"

text \<open>
  \<^verbatim>\<open>Encoding.encode(text, allowed_special=..., disallowed_special=...)\<close> with both sets
  given: a non-empty \<^verbatim>\<open>disallowed_special\<close> is searched for in the text, and a match raises;
  then the compiled encoder runs with \<^verbatim>\<open>allowed_special\<close>.
\<close>

definition tkt_encode :: "encoding \<Rightarrow> string \<Rightarrow> string set \<Rightarrow> string set \<Rightarrow> nat list result" where
  "tkt_encode enc text allowed_special disallowed_special =
     (if disallowed_special \<noteq> {} \<and> (\<exists>t \<in> disallowed_special. sublist t text)
      then Inl DisallowedSpecialToken
      else (case core_encode (enc_core enc) text allowed_special of
              None \<Rightarrow> Inl TiktokenError
            | Some ids \<Rightarrow> Inr ids))"

text \<open>\<^verbatim>\<open>Encoding.encode_batch\<close>: \<^verbatim>\<open>encode\<close> on each text, the first failure raised.\<close>

fun tkt_encode_batch ::
  "encoding \<Rightarrow> string list \<Rightarrow> string set \<Rightarrow> string set \<Rightarrow> nat list list result"
where
  "tkt_encode_batch enc [] allowed_special disallowed_special = Inr []"
| "tkt_encode_batch enc (t # ts) allowed_special disallowed_special =
     (case tkt_encode enc t allowed_special disallowed_special of
        Inl e \<Rightarrow> Inl e
      | Inr ids \<Rightarrow>
          (case tkt_encode_batch enc ts allowed_special disallowed_special of
             Inl e \<Rightarrow> Inl e
           | Inr rest \<Rightarrow> Inr (ids # rest)))"

definition tkt_decode :: "encoding \<Rightarrow> nat list \<Rightarrow> string result" where
  "tkt_decode enc tokens =
     (case core_decode (enc_core enc) tokens of
        None \<Rightarrow> Inl TiktokenError
      | Some s \<Rightarrow> Inr s)"

section \<open>The module's name space\<close>

text \<open>
  A function body reads a name that is not local from the module's globals when it runs.
  Two names the class reads are bound by no statement of the module: \<^verbatim>\<open>subs\<close> (line 112;
  the only \<^verbatim>\<open>subs\<close> of the file is the local variable of \<^verbatim>\<open>tokenize\<close>) and \<^verbatim>\<open>os\<close>
  (line 149; the imports are \<^verbatim>\<open>base64\<close>, \<^verbatim>\<open>json\<close>, \<^verbatim>\<open>Path\<close>, \<^verbatim>\<open>tiktoken\<close>, \<^verbatim>\<open>Union\<close>,
  \<^verbatim>\<open>List\<close> and \<^verbatim>\<open>PreTrainedTokenizer\<close>). The environment records what each of the two is
  bound to, if anything, and whether \<^verbatim>\<open>assert\<close> statements run (they do unless the
  interpreter is started with \<^verbatim>\<open>-O\<close>). \<open>module_env\<close> is the environment the module's text
  gives.
\<close>

record py_env =
  env_debug :: bool
  env_os :: bool
  env_subs :: "string list option"

definition module_env :: "bool \<Rightarrow> py_env" where
  "module_env debug = \<lparr>env_debug = debug, env_os = False, env_subs = None\<rparr>"

section \<open>The class \<^verbatim>\<open>FishTokenizer\<close>\<close>

text \<open>
  Each \<^verbatim>\<open>def\<close> of the class is a function of its declared parameters. Three of them,
  \<^verbatim>\<open>load_tiktoken_bpe\<close>, \<^verbatim>\<open>tokenize\<close> and \<^verbatim>\<open>from_pretrained\<close>, are declared without a
  \<^verbatim>\<open>self\<close> parameter and without \<^verbatim>\<open>@staticmethod\<close>: looked up on the class they are plain
  functions of their one argument, and that is how they are embedded.

  A call \<^verbatim>\<open>self.f(a\<^sub>1, ..., a\<^sub>n)\<close> looks \<^verbatim>\<open>f\<close> up on the instance, which binds the function
  to the instance: the body receives \<open>n + 1\<close> arguments, the instance first. A \<^verbatim>\<open>def\<close> whose
  parameters cannot take that many (or need more) raises \<^verbatim>\<open>TypeError\<close> before its body
  runs. \<open>method_call\<close> is that test, for a \<^verbatim>\<open>def\<close> of \<open>declared\<close> parameters of which the first
  \<open>required\<close> have no default, called with \<open>given\<close> arguments written; the error carries the
  name of the function.

  The embedding reads past two things: the class header on line 65 lacks its colon, and the
  annotations of the parameters are not evaluated (that of line 147 names \<^verbatim>\<open>os\<close>).
\<close>

definition method_call :: "string \<Rightarrow> nat \<Rightarrow> nat \<Rightarrow> nat \<Rightarrow> 'a result \<Rightarrow> 'a result" where
  "method_call name required declared given body =
     (if required \<le> Suc given \<and> Suc given \<le> declared then body else Inl (TypeError name))"

subsection \<open>Lines 12--23: the pattern\<close>

definition FISH_TIKTOKEN_PATTERN :: string where
  "FISH_TIKTOKEN_PATTERN =
     (let B = [CHR 0x5C] in
      str_join ''|''
        [''(?i:'s|'t|'re|'ve|'m|'ll|'d)'',
         B @ ''p{P}'',
         ''[^'' @ B @ ''r'' @ B @ ''n'' @ B @ ''p{L}'' @ B @ ''p{N}]?'' @ B @ ''p{L}+'',
         B @ ''p{N}'',
         '' ?[^'' @ B @ ''s'' @ B @ ''p{L}'' @ B @ ''p{N}]+['' @ B @ ''r'' @ B @ ''n]*'',
         B @ ''s*['' @ B @ ''r'' @ B @ ''n]+'',
         B @ ''s+('' @ B @ ''?!'' @ B @ ''S)'',
         B @ ''s+''])"

subsection \<open>Lines 86--93: \<^verbatim>\<open>load_tiktoken_bpe\<close>\<close>

text \<open>
  The loop over the lines, with the dictionary built so far. In
  \<^verbatim>\<open>data[base64.b64decode(token)] = int(rank)\<close> the right-hand side is evaluated first.
\<close>

fun load_lines :: "string list \<Rightarrow> (bytes, int) dict \<Rightarrow> (bytes, int) dict result" where
  "load_lines [] data = Inr data"
| "load_lines (line # rest) data =
     (if line = [] then load_lines rest data
      else (case split line of
              [token, rank] \<Rightarrow>
                (case py_int rank of
                   Inl e \<Rightarrow> Inl e
                 | Inr r \<Rightarrow>
                     (case b64decode token of
                        Inl e \<Rightarrow> Inl e
                      | Inr tok \<Rightarrow> load_lines rest (AList.update tok r data)))
            | _ \<Rightarrow> Inl (ValueError ''unpack'')))"

definition load_tiktoken_bpe :: "filesystem \<Rightarrow> path \<Rightarrow> (bytes, int) dict result" where
  "load_tiktoken_bpe fs tiktoken_bpe_file =
     (case open_read fs tiktoken_bpe_file of
        Inl e \<Rightarrow> Inl e
      | Inr content \<Rightarrow> load_lines (splitlines content) [])"

subsection \<open>Lines 66--84: \<^verbatim>\<open>__init__\<close>\<close>

record fish_tokenizer =
  all_special_tokens_with_ids :: "(string, nat) dict"
  semantic_id_to_token_id :: "(nat, nat) dict"
  semantic_begin_id :: nat
  semantic_end_id :: nat
  tkt_model :: encoding

text \<open>
  The items of \<^verbatim>\<open>{i: self.all_special_tokens_with_ids[token] for i, token in enumerate(...)}\<close>:
  a missing key raises.
\<close>

fun semantic_items :: "(string, nat) dict \<Rightarrow> (nat \<times> string) list \<Rightarrow> (nat \<times> nat) list result" where
  "semantic_items d [] = Inr []"
| "semantic_items d ((i, token) # rest) =
     (case dict_get d token of
        Inl e \<Rightarrow> Inl e
      | Inr v \<Rightarrow> (case semantic_items d rest of Inl e \<Rightarrow> Inl e | Inr kvs \<Rightarrow> Inr ((i, v) # kvs)))"

text \<open>
  Lines 69--71: the dictionary
  \<^verbatim>\<open>{token: special_token_begin + i for i, token in enumerate(ALL_SPECIAL_TOKENS)}\<close>.
\<close>

definition special_tokens_with_ids :: "nat \<Rightarrow> (string, nat) dict" where
  "special_tokens_with_ids special_token_begin =
     dict_of_items
       (map (\<lambda>(i, token). (token, special_token_begin + i)) (enumerate 0 ALL_SPECIAL_TOKENS))"

text \<open>
  Line 67 is \<^verbatim>\<open>self.load_tiktoken_bpe(model_path)\<close>, a call through the instance of a
  \<^verbatim>\<open>def\<close> with the one parameter \<^verbatim>\<open>tiktoken_bpe_file\<close>.
\<close>

definition FishTokenizer_init :: "tiktoken_lib \<Rightarrow> filesystem \<Rightarrow> path \<Rightarrow> fish_tokenizer result" where
  "FishTokenizer_init lib fs model_path =
     (case method_call ''load_tiktoken_bpe'' 1 1 1 (load_tiktoken_bpe fs model_path) of
        Inl e \<Rightarrow> Inl e
      | Inr mergeable_ranks \<Rightarrow>
          (let special_token_begin = length mergeable_ranks;
               all_ids = special_tokens_with_ids special_token_begin
           in case semantic_items all_ids (enumerate 0 SEMANTIC_TOKENS) of
                Inl e \<Rightarrow> Inl e
              | Inr items \<Rightarrow>
                  (case dict_get all_ids (SEMANTIC_TOKENS ! 0) of
                     Inl e \<Rightarrow> Inl e
                   | Inr begin_id \<Rightarrow>
                       (case dict_get all_ids (last SEMANTIC_TOKENS) of
                          Inl e \<Rightarrow> Inl e
                        | Inr end_id \<Rightarrow>
                            (case tkt_Encoding lib (stem model_path) FISH_TIKTOKEN_PATTERN
                                    mergeable_ranks all_ids of
                               Inl e \<Rightarrow> Inl e
                             | Inr model \<Rightarrow>
                                 Inr \<lparr>all_special_tokens_with_ids = all_ids,
                                      semantic_id_to_token_id = dict_of_items items,
                                      semantic_begin_id = begin_id,
                                      semantic_end_id = end_id,
                                      tkt_model = model\<rparr>)))))"

subsection \<open>Lines 95--96: \<^verbatim>\<open>get_token_id\<close>\<close>

definition get_token_id :: "fish_tokenizer \<Rightarrow> string \<Rightarrow> nat result" where
  "get_token_id self token = dict_get (all_special_tokens_with_ids self) token"

subsection \<open>Lines 104--115: \<^verbatim>\<open>convert_tokens_to_ids\<close>\<close>

text \<open>
  The values the parameters \<^verbatim>\<open>text\<close> and \<^verbatim>\<open>allowed_special\<close> take. The batch that is
  encoded is what the name \<^verbatim>\<open>subs\<close> is bound to, not the parameter \<^verbatim>\<open>tokens\<close>.
\<close>

datatype py_val = PyStr string | PyList "py_val list" | PyInt int | PyNone

datatype allowed_arg = AllowedBool bool | AllowedSet "string set"

definition convert_tokens_to_ids ::
  "py_env \<Rightarrow> fish_tokenizer \<Rightarrow> py_val list \<Rightarrow> allowed_arg \<Rightarrow> nat list result"
where
  "convert_tokens_to_ids env self tokens allowed_special =
     (let allowed = (case allowed_special of
                       AllowedBool True \<Rightarrow> special_tokens_set (tkt_model self)
                     | AllowedBool False \<Rightarrow> {}
                     | AllowedSet names \<Rightarrow> names)
      in case env_subs env of
           None \<Rightarrow> Inl (NameError ''subs'')
         | Some subs \<Rightarrow>
             (case tkt_encode_batch (tkt_model self) subs allowed {} of
                Inl e \<Rightarrow> Inl e
              | Inr idss \<Rightarrow> Inr (concat idss)))"

subsection \<open>Lines 117--126: \<^verbatim>\<open>encode\<close>\<close>

text \<open>
  Line 119 is \<^verbatim>\<open>self.tokenize(text)\<close>, a call through the instance of a \<^verbatim>\<open>def\<close> with the one
  parameter \<^verbatim>\<open>text\<close>; lines 120 and 122 call \<^verbatim>\<open>convert_tokens_to_ids\<close>, which declares
  \<^verbatim>\<open>self\<close>, \<^verbatim>\<open>tokens\<close> and \<^verbatim>\<open>allowed_special\<close> (with a default), with two arguments.
\<close>

definition encode :: "py_env \<Rightarrow> fish_tokenizer \<Rightarrow> py_val \<Rightarrow> allowed_arg \<Rightarrow> nat list result" where
  "encode env self text allowed_special =
     (case text of
        PyStr s \<Rightarrow>
          (case method_call ''tokenize'' 1 1 1 (Inr (tokenize s)) of
             Inl e \<Rightarrow> Inl e
           | Inr tokens \<Rightarrow>
               method_call ''convert_tokens_to_ids'' 2 3 2
                 (convert_tokens_to_ids env self (map PyStr tokens) allowed_special))
      | PyList l \<Rightarrow>
          method_call ''convert_tokens_to_ids'' 2 3 2
            (convert_tokens_to_ids env self l allowed_special)
      | _ \<Rightarrow> if env_debug env then Inl AssertionError else Inl (UnboundLocalError ''ids''))"

subsection \<open>Lines 128--129: \<^verbatim>\<open>decode\<close>\<close>

definition decode :: "fish_tokenizer \<Rightarrow> nat list \<Rightarrow> string result" where
  "decode self tokens = tkt_decode (tkt_model self) tokens"

subsection \<open>Lines 131--145: \<^verbatim>\<open>save_pretrained\<close>\<close>

definition tiktoken_file_text :: "(bytes, int) dict \<Rightarrow> string" where
  "tiktoken_file_text ranks =
     concat (map (\<lambda>(token, rank). b64encode token @ '' '' @ str_int rank @ [LF]) ranks)"

definition save_pretrained :: "fish_tokenizer \<Rightarrow> filesystem \<Rightarrow> path \<Rightarrow> filesystem result" where
  "save_pretrained self fs save_directory =
     (case mkdir_parents fs save_directory of
        Inl e \<Rightarrow> Inl e
      | Inr fs1 \<Rightarrow>
          (case open_write fs1 (save_directory @ [''tokenizer.tiktoken''])
                  (tiktoken_file_text (enc_mergeable_ranks (tkt_model self))) of
             Inl e \<Rightarrow> Inl e
           | Inr fs2 \<Rightarrow>
               open_write fs2 (save_directory @ [''special_tokens.json''])
                 (json_dump_indent2 (all_special_tokens_with_ids self))))"

subsection \<open>Lines 147--152: \<^verbatim>\<open>from_pretrained\<close>\<close>

definition from_pretrained ::
  "py_env \<Rightarrow> tiktoken_lib \<Rightarrow> filesystem \<Rightarrow> path \<Rightarrow> fish_tokenizer result"
where
  "from_pretrained env lib fs pretrained_model_name_or_path =
     (if \<not> env_os env then Inl (NameError ''os'')
      else if isfile fs pretrained_model_name_or_path
           then FishTokenizer_init lib fs pretrained_model_name_or_path
           else FishTokenizer_init lib fs (pretrained_model_name_or_path @ [''tokenizer.tiktoken'']))"

section \<open>Concrete inputs for the closed examples\<close>

text \<open>
  A stand-in for the compiled encoder, used only where a closed example needs one: it
  accepts every table, encodes a text that is an allowed special token as that token's id
  and any other text as the codes of its characters, and decodes codes back.
\<close>

definition byte_encoder :: "(string, nat) dict \<Rightarrow> tkt_core" where
  "byte_encoder specials =
     \<lparr>core_encode = (\<lambda>t allowed.
        case (if t \<in> allowed then map_of specials t else None) of
          Some i \<Rightarrow> Some [i]
        | None \<Rightarrow> Some (map of_char t)),
      core_decode = (\<lambda>ids. Some (map char_of ids))\<rparr>"

definition byte_core :: tiktoken_lib where
  "byte_core ranks specials pat = Some (byte_encoder specials)"

text \<open>
  A directory \<^verbatim>\<open>model\<close> that holds a model file of two entries with a blank line between
  them, a directory \<^verbatim>\<open>canon\<close> that holds the same two entries without the blank line, a
  directory \<^verbatim>\<open>twice\<close> whose model file gives two ranks to one token, and a directory
  \<^verbatim>\<open>empty\<close> that holds nothing.
\<close>

definition example_file :: string where
  "example_file = ''YQ== 0'' @ [LF, LF] @ ''Yg== 1'' @ [LF]"

definition canonical_file :: string where
  "canonical_file = ''YQ== 0'' @ [LF] @ ''Yg== 1'' @ [LF]"

definition repeated_file :: string where
  "repeated_file = ''YQ== 0'' @ [LF] @ ''YQ== 1'' @ [LF]"

definition example_fs :: filesystem where
  "example_fs =
     [[''model''] \<mapsto> Dir,
      [''model'', ''tokenizer.tiktoken''] \<mapsto> File example_file,
      [''canon''] \<mapsto> Dir,
      [''canon'', ''tokenizer.tiktoken''] \<mapsto> File canonical_file,
      [''twice''] \<mapsto> Dir,
      [''twice'', ''tokenizer.tiktoken''] \<mapsto> File repeated_file,
      [''empty''] \<mapsto> Dir]"

text \<open>
  An object with the attributes the methods read, as lines 68--84 describe them for the
  merge table of the two entries above. The constructor does not return it (line 67 raises
  first); it stands where a closed example needs an object to call a method on.
\<close>

definition example_semantic_ids :: "(nat, nat) dict" where
  "example_semantic_ids = dict_of_items (map (\<lambda>i. (i, 14 + i)) [0..<1024])"

definition example_tokenizer :: fish_tokenizer where
  "example_tokenizer =
     \<lparr>all_special_tokens_with_ids = special_tokens_with_ids 2,
      semantic_id_to_token_id = example_semantic_ids,
      semantic_begin_id = 14,
      semantic_end_id = 1037,
      tkt_model =
        \<lparr>enc_name = ''tokenizer'',
         enc_pat_str = FISH_TIKTOKEN_PATTERN,
         enc_mergeable_ranks = [(''a'', 0), (''b'', 1)],
         enc_special_tokens = special_tokens_with_ids 2,
         enc_core = byte_encoder (special_tokens_with_ids 2)\<rparr>\<rparr>"

section \<open>Auxiliary definitions for the proofs\<close>

text \<open>The twelve tokens that lines 50--61 list by name, written out.\<close>

definition fixed_special_tokens :: "string list" where
  "fixed_special_tokens =
     [''<|begin_of_text|>'', ''<|end_of_text|>'', ''<|pad|>'', ''<|im_start|>'', ''<|im_end|>'',
      ''<|placeholder:0|>'', ''<|placeholder:1|>'', ''<|placeholder:2|>'', ''<|placeholder:3|>'',
      ''<|text|>'', ''<|voice|>'', ''<|interleave|>'']"

text \<open>The items of the dictionary comprehension of lines 69--71, for a table of \<open>b\<close> entries.\<close>

definition special_items :: "nat \<Rightarrow> (string \<times> nat) list" where
  "special_items b = map (\<lambda>(i, token). (token, b + i)) (enumerate 0 ALL_SPECIAL_TOKENS)"

text \<open>A call on the result of an earlier call: an exception of the first is the result.\<close>

definition then_call :: "'a result \<Rightarrow> ('a \<Rightarrow> 'b result) \<Rightarrow> 'b result" where
  "then_call r f = (case r of Inl e \<Rightarrow> Inl e | Inr x \<Rightarrow> f x)"

definition example_path :: path where
  "example_path = [''model'', ''tokenizer.tiktoken'']"

text \<open>\<^verbatim>\<open>isinstance(text, str)\<close> and \<^verbatim>\<open>isinstance(text, list)\<close>, the tests of lines 118--124.\<close>

definition isinstance_str :: "py_val \<Rightarrow> bool" where
  "isinstance_str v = (case v of PyStr s \<Rightarrow> True | _ \<Rightarrow> False)"

definition isinstance_list :: "py_val \<Rightarrow> bool" where
  "isinstance_list v = (case v of PyList l \<Rightarrow> True | _ \<Rightarrow> False)"

text \<open>One line of the model file as line 137 writes it, without its newline.\<close>

definition tiktoken_line :: "bytes \<times> int \<Rightarrow> string" where
  "tiktoken_line e = b64encode (fst e) @ '' '' @ str_int (snd e)"

text \<open>The text of \<^verbatim>\<open>special_tokens.json\<close> for a table of \<open>b\<close> entries, written out.\<close>

definition special_tokens_json :: "nat \<Rightarrow> string" where
  "special_tokens_json b =
     ''{'' @ [LF]
     @ str_join ('','' @ [LF])
         (map (\<lambda>(i, token). ''  '' @ [CHR 0x22] @ token @ [CHR 0x22] @ '': '' @ str_nat (b + i))
              (enumerate 0 ALL_SPECIAL_TOKENS))
     @ [LF] @ ''}''"

definition json_plain :: "char \<Rightarrow> bool" where
  "json_plain c \<longleftrightarrow> c \<in> set ''<|>_:abcdefghijklmnopqrstuvwxyz0123456789''"

section \<open>Properties of the chunking\<close>

lemma tokenize_loop_concat:
  "concat (tokenize_loop s i subs) = concat subs @ drop i s"
proof (induction s i subs rule: tokenize_loop.induct)
  case (1 s i subs)
  show ?case
  proof (cases "i < length s")
    case True
    have "concat (tokenize_loop s i subs)
          = concat (tokenize_loop s (i + TIKTOKEN_MAX_ENCODE_CHARS)
              (subs @ [take TIKTOKEN_MAX_ENCODE_CHARS (drop i s)]))"
      using True by (subst tokenize_loop.simps) simp
    also have "\<dots> = concat (subs @ [take TIKTOKEN_MAX_ENCODE_CHARS (drop i s)])
                    @ drop (i + TIKTOKEN_MAX_ENCODE_CHARS) s"
      using "1.IH" [OF True] .
    also have "\<dots> = concat subs @ drop i s"
      by (simp add: add.commute [of i] flip: drop_drop)
    finally show ?thesis .
  next
    case False
    then show ?thesis by (subst tokenize_loop.simps) simp
  qed
qed

lemma tokenize_loop_bound:
  "(\<And>c. c \<in> set subs \<Longrightarrow> length c \<le> TIKTOKEN_MAX_ENCODE_CHARS) \<Longrightarrow>
   c \<in> set (tokenize_loop s i subs) \<Longrightarrow> length c \<le> TIKTOKEN_MAX_ENCODE_CHARS"
proof (induction s i subs rule: tokenize_loop.induct)
  case (1 s i subs)
  show ?case
  proof (cases "i < length s")
    case True
    have mem: "c \<in> set (tokenize_loop s (i + TIKTOKEN_MAX_ENCODE_CHARS)
              (subs @ [take TIKTOKEN_MAX_ENCODE_CHARS (drop i s)]))"
      using "1.prems"(2) True by (subst (asm) tokenize_loop.simps) simp
    show ?thesis
      by (rule "1.IH" [OF True _ mem]) (use "1.prems"(1) in auto)
  next
    case False
    then have "tokenize_loop s i subs = subs"
      by (subst tokenize_loop.simps) simp
    with "1.prems" show ?thesis by simp
  qed
qed

lemma tokenize_loop_nth:
  "i = length subs * TIKTOKEN_MAX_ENCODE_CHARS \<Longrightarrow>
   (\<And>k. k < length subs \<Longrightarrow>
      subs ! k = take TIKTOKEN_MAX_ENCODE_CHARS (drop (k * TIKTOKEN_MAX_ENCODE_CHARS) s)) \<Longrightarrow>
   k < length (tokenize_loop s i subs) \<Longrightarrow>
   tokenize_loop s i subs ! k
     = take TIKTOKEN_MAX_ENCODE_CHARS (drop (k * TIKTOKEN_MAX_ENCODE_CHARS) s)"
proof (induction s i subs rule: tokenize_loop.induct)
  case (1 s i subs)
  let ?N = TIKTOKEN_MAX_ENCODE_CHARS
  let ?subs' = "subs @ [take ?N (drop i s)]"
  show ?case
  proof (cases "i < length s")
    case True
    have unf: "tokenize_loop s i subs = tokenize_loop s (i + ?N) ?subs'"
      using True by (subst tokenize_loop.simps) simp
    have a: "i + ?N = length ?subs' * ?N"
      using "1.prems"(1) by simp
    have b: "j < length ?subs' \<Longrightarrow> ?subs' ! j = take ?N (drop (j * ?N) s)" for j
      using "1.prems"(1,2) by (cases "j < length subs") (auto simp: nth_append less_Suc_eq)
    show ?thesis
      unfolding unf
      by (rule "1.IH" [OF True a b]) (use "1.prems"(3) unf in auto)
  next
    case False
    then have "tokenize_loop s i subs = subs"
      by (subst tokenize_loop.simps) simp
    with "1.prems" show ?thesis by simp
  qed
qed

lemma tokenize_loop_start:
  "i = length subs * TIKTOKEN_MAX_ENCODE_CHARS \<Longrightarrow>
   (\<And>k. k < length subs \<Longrightarrow> k * TIKTOKEN_MAX_ENCODE_CHARS < length s) \<Longrightarrow>
   k < length (tokenize_loop s i subs) \<Longrightarrow>
   k * TIKTOKEN_MAX_ENCODE_CHARS < length s"
proof (induction s i subs rule: tokenize_loop.induct)
  case (1 s i subs)
  let ?N = TIKTOKEN_MAX_ENCODE_CHARS
  let ?subs' = "subs @ [take ?N (drop i s)]"
  show ?case
  proof (cases "i < length s")
    case True
    have unf: "tokenize_loop s i subs = tokenize_loop s (i + ?N) ?subs'"
      using True by (subst tokenize_loop.simps) simp
    have a: "i + ?N = length ?subs' * ?N"
      using "1.prems"(1) by simp
    have b: "j < length ?subs' \<Longrightarrow> j * ?N < length s" for j
      using "1.prems"(1,2) True by (cases "j < length subs") (auto simp: less_Suc_eq)
    show ?thesis
      by (rule "1.IH" [OF True a b]) (use "1.prems"(3) unf in auto)
  next
    case False
    then have "tokenize_loop s i subs = subs"
      by (subst tokenize_loop.simps) simp
    with "1.prems" show ?thesis by simp
  qed
qed

lemma tokenize_nth:
  "k < length (tokenize s) \<Longrightarrow>
   tokenize s ! k = take TIKTOKEN_MAX_ENCODE_CHARS (drop (k * TIKTOKEN_MAX_ENCODE_CHARS) s)"
  unfolding tokenize_def by (rule tokenize_loop_nth) simp_all

lemma tokenize_start:
  "k < length (tokenize s) \<Longrightarrow> k * TIKTOKEN_MAX_ENCODE_CHARS < length s"
  unfolding tokenize_def by (rule tokenize_loop_start [where subs = "[]" and i = 0]) simp_all

lemma tokenize_butlast_full:
  assumes "c \<in> set (butlast (tokenize s))"
  shows "length c = TIKTOKEN_MAX_ENCODE_CHARS"
proof -
  let ?N = TIKTOKEN_MAX_ENCODE_CHARS
  from assms obtain k where k: "k < length (butlast (tokenize s))" "c = butlast (tokenize s) ! k"
    by (auto simp: in_set_conv_nth)
  then have k': "Suc k < length (tokenize s)" by simp
  have c: "c = take ?N (drop (k * ?N) s)"
    using k k' by (simp add: nth_butlast tokenize_nth)
  have "Suc k * ?N < length s"
    using k' by (rule tokenize_start)
  then show ?thesis
    unfolding c by simp
qed

lemma tokenize_single:
  "s \<noteq> [] \<Longrightarrow> length s \<le> TIKTOKEN_MAX_ENCODE_CHARS \<Longrightarrow> tokenize s = [s]"
  unfolding tokenize_def
  by (subst tokenize_loop.simps, simp, subst tokenize_loop.simps, simp)

lemma tokenize_empty: "tokenize [] = []"
  unfolding tokenize_def by (subst tokenize_loop.simps) simp

section \<open>Properties of the special-token registry\<close>

subsection \<open>Decimal formatting is injective\<close>

lemma digit_val_digit_char: "d < 10 \<Longrightarrow> digit_val (digit_char d) = d"
proof -
  assume "d < 10"
  then have "d \<in> {0, 1, 2, 3, 4, 5, 6, 7, 8, 9}" by auto
  then show ?thesis
    by (auto simp: digit_val_def digit_char_def)
qed

lemma is_digit_digit_char: "d < 10 \<Longrightarrow> is_digit (digit_char d)"
proof -
  assume "d < 10"
  then have "d \<in> {0, 1, 2, 3, 4, 5, 6, 7, 8, 9}" by auto
  then show ?thesis
    by (auto simp: is_digit_def digit_char_def)
qed

lemma foldl_str_nat:
  "foldl (\<lambda>a c. 10 * a + digit_val c) 0 (str_nat n) = n"
proof (induction n rule: str_nat.induct)
  case (1 n)
  show ?case
  proof (cases "n < 10")
    case True
    then show ?thesis
      by (subst str_nat.simps) (simp add: digit_val_digit_char)
  next
    case False
    have "foldl (\<lambda>a c. 10 * a + digit_val c) 0 (str_nat n)
          = 10 * foldl (\<lambda>a c. 10 * a + digit_val c) 0 (str_nat (n div 10))
            + digit_val (digit_char (n mod 10))"
      using False by (subst str_nat.simps) simp
    also have "\<dots> = 10 * (n div 10) + n mod 10"
      using "1.IH" [OF False] by (simp add: digit_val_digit_char)
    finally show ?thesis by simp
  qed
qed

lemma str_nat_inj:
  assumes "str_nat m = str_nat n"
  shows "m = n"
proof -
  have "foldl (\<lambda>a c. 10 * a + digit_val c) 0 (str_nat m)
        = foldl (\<lambda>a c. 10 * a + digit_val c) 0 (str_nat n)"
    using assms by (rule arg_cong)
  then show ?thesis
    by (simp only: foldl_str_nat)
qed

lemma str_nat_digits: "c \<in> set (str_nat n) \<Longrightarrow> is_digit c"
proof (induction n rule: str_nat.induct)
  case (1 n)
  show ?case
  proof (cases "n < 10")
    case True
    with "1.prems" show ?thesis
      by (subst (asm) str_nat.simps) (simp add: is_digit_digit_char)
  next
    case False
    with "1.prems" have "c \<in> set (str_nat (n div 10)) \<or> c = digit_char (n mod 10)"
      by (subst (asm) str_nat.simps) auto
    then show ?thesis
      using "1.IH" [OF False] by (auto simp: is_digit_digit_char)
  qed
qed

lemma str_nat_nonempty: "str_nat n \<noteq> []"
  by (subst str_nat.simps) simp

subsection \<open>The list of special tokens\<close>

lemma SEMANTIC_TOKEN_TEMPLATE_inj:
  "SEMANTIC_TOKEN_TEMPLATE i = SEMANTIC_TOKEN_TEMPLATE j \<Longrightarrow> i = j"
  by (simp add: SEMANTIC_TOKEN_TEMPLATE_def str_nat_inj)

lemma length_SEMANTIC_TOKENS: "length SEMANTIC_TOKENS = 1024"
  by (simp add: SEMANTIC_TOKENS_def)

lemma nth_SEMANTIC_TOKENS: "i < 1024 \<Longrightarrow> SEMANTIC_TOKENS ! i = SEMANTIC_TOKEN_TEMPLATE i"
  by (simp add: SEMANTIC_TOKENS_def)

lemma distinct_SEMANTIC_TOKENS: "distinct SEMANTIC_TOKENS"
  unfolding SEMANTIC_TOKENS_def
  by (simp add: distinct_map inj_on_def SEMANTIC_TOKEN_TEMPLATE_inj)

lemma SEMANTIC_TOKENS_third: "t \<in> set SEMANTIC_TOKENS \<Longrightarrow> t ! 2 = CHR ''s''"
  by (auto simp: SEMANTIC_TOKENS_def SEMANTIC_TOKEN_TEMPLATE_def)

lemma PLACEHOLDER_TOKEN_eval:
  "PLACEHOLDER_TOKEN =
     [''<|placeholder:0|>'', ''<|placeholder:1|>'', ''<|placeholder:2|>'', ''<|placeholder:3|>'']"
  by (simp add: PLACEHOLDER_TOKEN_def upt_conv_Cons str_nat.simps digit_char_def)

lemma ALL_SPECIAL_TOKENS_eq: "ALL_SPECIAL_TOKENS = fixed_special_tokens @ SEMANTIC_TOKENS"
  by (simp add: ALL_SPECIAL_TOKENS_def fixed_special_tokens_def PLACEHOLDER_TOKEN_eval
      BOS_TOKEN_def EOS_TOKEN_def PAD_TOKEN_def IM_START_TOKEN_def IM_END_TOKEN_def
      MODALITY_TEXT_TOKEN_def MODALITY_VOICE_TOKEN_def MODALITY_INTERLEAVE_TOKEN_def)

lemma length_fixed_special_tokens: "length fixed_special_tokens = 12"
  by (simp add: fixed_special_tokens_def)

lemma length_ALL_SPECIAL_TOKENS: "length ALL_SPECIAL_TOKENS = 1036"
  by (simp add: ALL_SPECIAL_TOKENS_eq length_fixed_special_tokens length_SEMANTIC_TOKENS)

lemma distinct_fixed_special_tokens: "distinct fixed_special_tokens"
  by (simp add: fixed_special_tokens_def)

lemma fixed_special_tokens_third: "t \<in> set fixed_special_tokens \<Longrightarrow> t ! 2 \<noteq> CHR ''s''"
  by (auto simp: fixed_special_tokens_def)

lemma distinct_ALL_SPECIAL_TOKENS: "distinct ALL_SPECIAL_TOKENS"
  unfolding ALL_SPECIAL_TOKENS_eq
  using distinct_fixed_special_tokens distinct_SEMANTIC_TOKENS
    fixed_special_tokens_third SEMANTIC_TOKENS_third
  by auto

lemma ALL_SPECIAL_TOKENS_semantic:
  "i < 1024 \<Longrightarrow> ALL_SPECIAL_TOKENS ! (12 + i) = SEMANTIC_TOKEN_TEMPLATE i"
  by (simp add: ALL_SPECIAL_TOKENS_eq nth_append length_fixed_special_tokens nth_SEMANTIC_TOKENS)

lemma ALL_SPECIAL_TOKENS_first: "ALL_SPECIAL_TOKENS ! 0 = ''<|begin_of_text|>''"
  by (simp add: ALL_SPECIAL_TOKENS_eq fixed_special_tokens_def)

lemma ALL_SPECIAL_TOKENS_head: "t \<in> set ALL_SPECIAL_TOKENS \<Longrightarrow> hd t = CHR ''<''"
  by (auto simp: ALL_SPECIAL_TOKENS_eq fixed_special_tokens_def SEMANTIC_TOKENS_def
      SEMANTIC_TOKEN_TEMPLATE_def)

subsection \<open>Dictionaries built from items with distinct keys\<close>

lemma update_fresh: "k \<notin> fst ` set d \<Longrightarrow> AList.update k v d = d @ [(k, v)]"
  by (induction d) auto

lemma fold_update_distinct:
  "distinct (map fst (d @ kvs)) \<Longrightarrow> fold (\<lambda>(k, v) d. AList.update k v d) kvs d = d @ kvs"
proof (induction kvs arbitrary: d)
  case Nil
  then show ?case by simp
next
  case (Cons kv kvs)
  obtain k v where kv: "kv = (k, v)" by (cases kv)
  have fresh: "k \<notin> fst ` set d"
    using Cons.prems by (auto simp: kv)
  have "distinct (map fst ((d @ [(k, v)]) @ kvs))"
    using Cons.prems by (simp add: kv)
  then have "fold (\<lambda>(k, v) d. AList.update k v d) kvs (d @ [(k, v)]) = (d @ [(k, v)]) @ kvs"
    by (rule Cons.IH)
  then show ?case
    by (simp add: kv update_fresh [OF fresh])
qed

lemma dict_of_items_distinct: "distinct (map fst kvs) \<Longrightarrow> dict_of_items kvs = kvs"
  unfolding dict_of_items_def using fold_update_distinct [of "[]" kvs] by simp

lemma special_items_zip:
  "special_items b = zip ALL_SPECIAL_TOKENS [b..<b + length ALL_SPECIAL_TOKENS]"
  unfolding special_items_def
  by (rule nth_equalityI) (simp_all add: nth_enumerate_eq)

lemma map_fst_special_items: "map fst (special_items b) = ALL_SPECIAL_TOKENS"
  by (simp add: special_items_zip)

lemma dict_of_special_items: "dict_of_items (special_items b) = special_items b"
  by (rule dict_of_items_distinct) (simp add: map_fst_special_items distinct_ALL_SPECIAL_TOKENS)

lemma map_of_special_items:
  "i < length ALL_SPECIAL_TOKENS \<Longrightarrow>
   map_of (special_items b) (ALL_SPECIAL_TOKENS ! i) = Some (b + i)"
  unfolding special_items_zip
  using map_of_zip_nth [of ALL_SPECIAL_TOKENS "[b..<b + length ALL_SPECIAL_TOKENS]" i]
  by (simp add: distinct_ALL_SPECIAL_TOKENS)

lemma map_of_special_items_None:
  "t \<notin> set ALL_SPECIAL_TOKENS \<Longrightarrow> map_of (special_items b) t = None"
  by (simp add: map_of_eq_None_iff map_fst_special_items flip: set_map)

lemma dict_get_special_items:
  "i < length ALL_SPECIAL_TOKENS \<Longrightarrow>
   dict_get (special_items b) (ALL_SPECIAL_TOKENS ! i) = Inr (b + i)"
  by (simp add: dict_get_def map_of_special_items)

lemma dict_get_semantic:
  "i < 1024 \<Longrightarrow> dict_get (special_items b) (SEMANTIC_TOKEN_TEMPLATE i) = Inr (b + 12 + i)"
  using dict_get_special_items [of "12 + i" b]
  by (simp add: ALL_SPECIAL_TOKENS_semantic length_ALL_SPECIAL_TOKENS add.assoc)

lemma last_SEMANTIC_TOKENS: "last SEMANTIC_TOKENS = SEMANTIC_TOKEN_TEMPLATE 1023"
proof -
  have "SEMANTIC_TOKENS \<noteq> []"
    using length_SEMANTIC_TOKENS by auto
  then have "last SEMANTIC_TOKENS = SEMANTIC_TOKENS ! (length SEMANTIC_TOKENS - 1)"
    by (rule last_conv_nth)
  then show ?thesis
    by (simp add: length_SEMANTIC_TOKENS nth_SEMANTIC_TOKENS)
qed

subsection \<open>The dictionary of lines 69--71\<close>

lemma special_tokens_with_ids_items: "special_tokens_with_ids b = special_items b"
  unfolding special_tokens_with_ids_def
  using dict_of_special_items [of b] by (simp add: special_items_def)

lemma keys_special_tokens_with_ids:
  "map fst (special_tokens_with_ids b) = ALL_SPECIAL_TOKENS"
  by (simp add: special_tokens_with_ids_items map_fst_special_items)

lemma no_bare_semantic_name: "''semantic:'' @ n \<notin> set ALL_SPECIAL_TOKENS"
  using ALL_SPECIAL_TOKENS_head [of "''semantic:'' @ n"] by auto

subsection \<open>The constructor\<close>

lemma FishTokenizer_init_raises:
  "FishTokenizer_init lib fs p = Inl (TypeError ''load_tiktoken_bpe'')"
  by (simp add: FishTokenizer_init_def method_call_def)

section \<open>The example model file\<close>

lemma load_example:
  "load_tiktoken_bpe example_fs example_path = Inr [(''a'', 0), (''b'', 1)]"
  by code_simp

section \<open>Properties of encoding\<close>

lemma tkt_encode_no_check:
  "tkt_encode enc t allowed {} =
     (case core_encode (enc_core enc) t allowed of None \<Rightarrow> Inl TiktokenError | Some ids \<Rightarrow> Inr ids)"
  by (simp add: tkt_encode_def)

lemma tkt_encode_batch_errors:
  "tkt_encode_batch enc ts allowed {} = Inl e \<Longrightarrow> e = TiktokenError"
proof (induction ts arbitrary: e)
  case Nil
  then show ?case by simp
next
  case (Cons t ts)
  then show ?case
    by (auto simp: tkt_encode_no_check split: option.splits sum.splits)
qed

lemma convert_tokens_to_ids_errors:
  "convert_tokens_to_ids env self tokens a = Inl e \<Longrightarrow> e = NameError ''subs'' \<or> e = TiktokenError"
  unfolding convert_tokens_to_ids_def Let_def
  by (auto split: option.splits sum.splits dest: tkt_encode_batch_errors)

lemma convert_tokens_to_ids_module:
  "convert_tokens_to_ids (module_env dbg) self tokens a = Inl (NameError ''subs'')"
  by (simp add: convert_tokens_to_ids_def module_env_def Let_def)

lemma encode_str: "encode env self (PyStr s) a = Inl (TypeError ''tokenize'')"
  by (simp add: encode_def method_call_def)

lemma encode_list: "encode env self (PyList l) a = convert_tokens_to_ids env self l a"
  by (simp add: encode_def method_call_def)

lemma encode_other:
  "\<not> isinstance_str v \<Longrightarrow> \<not> isinstance_list v \<Longrightarrow>
   encode env self v a = (if env_debug env then Inl AssertionError else Inl (UnboundLocalError ''ids''))"
  by (cases v) (simp_all add: encode_def isinstance_str_def isinstance_list_def)

lemma special_tokens_set_registry:
  "enc_special_tokens enc = special_tokens_with_ids b \<Longrightarrow>
   special_tokens_set enc = set ALL_SPECIAL_TOKENS"
  by (simp add: special_tokens_set_def keys_special_tokens_with_ids)

lemma model_example_tokenizer:
  "tkt_model example_tokenizer =
     \<lparr>enc_name = ''tokenizer'', enc_pat_str = FISH_TIKTOKEN_PATTERN,
      enc_mergeable_ranks = [(''a'', 0), (''b'', 1)],
      enc_special_tokens = special_tokens_with_ids 2,
      enc_core = byte_encoder (special_tokens_with_ids 2)\<rparr>"
  by (simp add: example_tokenizer_def)

lemma registry_example_tokenizer:
  "all_special_tokens_with_ids example_tokenizer = special_tokens_with_ids 2"
  by (simp add: example_tokenizer_def)

section \<open>Errors of loading\<close>

lemma a2b_base64_errors: "a2b_base64 q l p s out = Inl e \<Longrightarrow> e = Base64Error"
  by (induction q l p s out rule: a2b_base64.induct)
     (auto split: if_splits option.splits)

lemma b64decode_errors:
  "b64decode s = Inl e \<Longrightarrow>
   e = Base64Error \<or> e = ValueError ''string argument should contain only ASCII characters''"
  by (auto simp: b64decode_def split: if_splits dest: a2b_base64_errors)

lemma py_int_errors:
  "py_int s = Inl e \<Longrightarrow> e = ValueError ''invalid literal for int() with base 10''"
  by (auto simp: py_int_def split: option.splits)

lemma load_lines_errors:
  "load_lines ls data = Inl e \<Longrightarrow> e = Base64Error \<or> (\<exists>m. e = ValueError m)"
proof (induction ls arbitrary: data)
  case Nil
  then show ?case by simp
next
  case (Cons line ls)
  show ?case
  proof (cases "line = []")
    case True
    with Cons show ?thesis by simp
  next
    case False
    with Cons.prems Cons.IH show ?thesis
      by (auto split: list.splits sum.splits dest: py_int_errors b64decode_errors)
  qed
qed

lemma load_tiktoken_bpe_errors:
  "load_tiktoken_bpe fs p = Inl e \<Longrightarrow>
   e = FileNotFoundError \<or> e = NotADirectoryError \<or> e = IsADirectoryError
   \<or> e = Base64Error \<or> (\<exists>m. e = ValueError m)"
  by (auto simp: load_tiktoken_bpe_def open_read_def
      split: sum.splits option.splits fs_node.splits if_splits dest: load_lines_errors)

section \<open>Saving: what is written reads back\<close>

subsection \<open>Lines, fields and integers\<close>

lemma universal_newlines_id: "CR \<notin> set s \<Longrightarrow> universal_newlines s = s"
  by (induction s rule: universal_newlines.induct) auto

lemma splitlines_from_line:
  "\<forall>c \<in> set l. \<not> is_linebreak c \<Longrightarrow>
   splitlines_from cur (l @ LF # rest) = (cur @ l) # splitlines_from [] rest"
proof (induction l arbitrary: cur)
  case Nil
  have lb: "is_linebreak LF" "LF \<noteq> CR"
    by (simp_all add: is_linebreak_def LF_def CR_def)
  show ?case
    by (cases rest) (simp_all add: lb)
next
  case (Cons x xs)
  obtain d cs where dcs: "xs @ LF # rest = d # cs"
    by (cases xs) auto
  have x: "\<not> is_linebreak x" "x \<noteq> CR"
    using Cons.prems by (auto simp: is_linebreak_def CR_def)
  have "splitlines_from cur ((x # xs) @ LF # rest) = splitlines_from (cur @ [x]) (xs @ LF # rest)"
    by (simp add: dcs x)
  also have "\<dots> = ((cur @ [x]) @ xs) # splitlines_from [] rest"
    using Cons.prems by (intro Cons.IH) simp
  finally show ?case by simp
qed

lemma splitlines_lines:
  "\<forall>l \<in> set ls. \<forall>c \<in> set l. \<not> is_linebreak c \<Longrightarrow>
   splitlines (concat (map (\<lambda>l. l @ [LF]) ls)) = ls"
  unfolding splitlines_def
  by (induction ls) (simp_all add: splitlines_from_line)

lemma split_from_word:
  "\<forall>c \<in> set w. \<not> is_space c \<Longrightarrow> split_from cur (w @ rest) = split_from (cur @ w) rest"
  by (induction w arbitrary: cur) simp_all

lemma split_two:
  assumes "a \<noteq> []" "b \<noteq> []" "\<forall>c \<in> set a. \<not> is_space c" "\<forall>c \<in> set b. \<not> is_space c"
  shows "split (a @ '' '' @ b) = [a, b]"
proof -
  have sp: "is_space CHR '' ''" by (simp add: is_space_def)
  have "split (a @ '' '' @ b) = split_from a (CHR '' '' # b)"
    unfolding split_def using split_from_word [OF assms(3), of "[]"] by simp
  also have "\<dots> = a # split_from [] (b @ [])"
    using assms(1) sp by simp
  also have "\<dots> = a # split_from b []"
    using split_from_word [OF assms(4), of "[]" "[]"] by simp
  finally show ?thesis using assms(2) by simp
qed

lemma parse_digits_all:
  "\<forall>c \<in> set ds. is_digit c \<Longrightarrow>
   parse_digits acc ds = Some (foldl (\<lambda>a c. 10 * a + digit_val c) acc ds)"
  by (induction acc ds rule: parse_digits.induct) auto

lemma parse_nat_str_nat: "parse_nat (str_nat n) = Some n"
proof -
  obtain c cs where s: "str_nat n = c # cs"
    using str_nat_nonempty [of n] by (cases "str_nat n") auto
  have d: "\<forall>x \<in> set (c # cs). is_digit x"
    using str_nat_digits [of _ n] by (simp add: s)
  then have "parse_nat (str_nat n) = Some (foldl (\<lambda>a c. 10 * a + digit_val c) 0 (c # cs))"
    by (simp add: parse_nat_def s parse_digits_all)
  then show ?thesis
    using foldl_str_nat [of n] by (simp only: s)
qed

lemma str_nat_hd_digit: "\<exists>c cs. str_nat n = c # cs \<and> is_digit c"
  using str_nat_nonempty [of n] str_nat_digits [of _ n] by (cases "str_nat n") auto

lemma py_int_str_int: "py_int (str_int i) = Inr i"
proof (cases "i < 0")
  case True
  then show ?thesis
    by (simp add: py_int_def str_int_def parse_nat_str_nat)
next
  case False
  obtain c cs where s: "str_nat (nat i) = c # cs" "is_digit c"
    using str_nat_hd_digit by blast
  then have c: "c \<noteq> CHR ''-''" "c \<noteq> CHR ''+''"
    by (auto simp: is_digit_def)
  have "parse_nat (c # cs) = Some (nat i)"
    using parse_nat_str_nat [of "nat i"] by (simp add: s)
  then show ?thesis
    using False by (simp add: py_int_def str_int_def s c)
qed

subsection \<open>Base64: decoding what was encoded\<close>

lemma length_b64_alphabet: "length b64_alphabet = 64"
  by (simp add: b64_alphabet_def)

lemma distinct_b64_alphabet: "distinct b64_alphabet"
  by (simp add: b64_alphabet_def)

lemma b64_val_char: "n < 64 \<Longrightarrow> b64_val (b64_char n) = Some n"
  unfolding b64_val_def b64_char_def
  using map_of_zip_nth [of b64_alphabet "[0..<64]" n]
  by (simp add: length_b64_alphabet distinct_b64_alphabet)

lemma b64_alphabet_plain:
  "c \<in> set b64_alphabet \<Longrightarrow>
   c \<noteq> CHR ''='' \<and> \<not> is_space c \<and> \<not> is_linebreak c \<and> c \<noteq> CR \<and> (of_char c :: nat) < 128"
  by (auto simp: b64_alphabet_def is_space_def is_linebreak_def CR_def)

lemma b64_char_plain:
  "n < 64 \<Longrightarrow>
   b64_char n \<noteq> CHR ''='' \<and> \<not> is_space (b64_char n) \<and> \<not> is_linebreak (b64_char n)
   \<and> b64_char n \<noteq> CR \<and> (of_char (b64_char n) :: nat) < 128"
  by (rule b64_alphabet_plain) (simp add: b64_char_def length_b64_alphabet)

lemma a2b_data:
  "n < 64 \<Longrightarrow>
   a2b_base64 q l p (b64_char n # rest) out =
     (if q = 0 then a2b_base64 1 n 0 rest out
      else if q = 1 then a2b_base64 2 (n mod 16) 0 rest (out @ [char_of (l * 4 + n div 16)])
      else if q = 2 then a2b_base64 3 (n mod 4) 0 rest (out @ [char_of (l * 16 + n div 4)])
      else a2b_base64 0 0 0 rest (out @ [char_of (l * 64 + n)]))"
  using b64_char_plain [of n] by (simp add: b64_val_char)


lemma split_div: "b < n \<Longrightarrow> (a * n + b) div n = (a::nat)"
  by simp

lemma split_mod: "b < n \<Longrightarrow> (a * n + b) mod n = (b::nat)"
  by simp

lemma byte_parts:
  fixes x y z :: nat
  assumes "y < 256" "z < 256"
  shows "x div 4 * 4 + (x mod 4 * 16 + y div 16) div 16 = x"
    and "(x mod 4 * 16 + y div 16) mod 16 * 16 + (y mod 16 * 4 + z div 64) div 4 = y"
    and "(y mod 16 * 4 + z div 64) mod 4 * 64 + z mod 64 = z"
    and "x div 4 * 4 + (x mod 4 * 16) div 16 = x"
    and "(x mod 4 * 16 + y div 16) mod 16 * 16 + (y mod 16 * 4) div 4 = y"
proof -
  have y: "y div 16 < 16" using assms(1) by (simp add: less_mult_imp_div_less)
  have z: "z div 64 < 4" using assms(2) by (simp add: less_mult_imp_div_less)
  show "x div 4 * 4 + (x mod 4 * 16 + y div 16) div 16 = x"
    by (simp add: split_div [OF y])
  show "(x mod 4 * 16 + y div 16) mod 16 * 16 + (y mod 16 * 4 + z div 64) div 4 = y"
    using y by (simp add: split_div [OF z])
  show "(y mod 16 * 4 + z div 64) mod 4 * 64 + z mod 64 = z"
    using z by simp
  show "x div 4 * 4 + (x mod 4 * 16) div 16 = x"
    by simp
  show "(x mod 4 * 16 + y div 16) mod 16 * 16 + (y mod 16 * 4) div 4 = y"
    using y by simp
qed

lemma byte_bounds:
  fixes x y z :: nat
  assumes "x < 256" "y < 256" "z < 256"
  shows "x div 4 < 64" "x mod 4 * 16 + y div 16 < 64" "y mod 16 * 4 + z div 64 < 64" "z mod 64 < 64"
    "x mod 4 * 16 < 64" "y mod 16 * 4 < 64"
proof -
  have y: "y div 16 < 16" using assms(2) by (simp add: less_mult_imp_div_less)
  have z: "z div 64 < 4" using assms(3) by (simp add: less_mult_imp_div_less)
  have x4: "x mod 4 < 4" and y16: "y mod 16 < 16" by simp_all
  show "x div 4 < 64" using assms(1) by (simp add: less_mult_imp_div_less)
  show "x mod 4 * 16 + y div 16 < 64" using x4 y by linarith
  show "y mod 16 * 4 + z div 64 < 64" using y16 z by linarith
  show "z mod 64 < 64" by simp
  show "x mod 4 * 16 < 64" using x4 by linarith
  show "y mod 16 * 4 < 64" using y16 by linarith
qed

lemma of_char_byte: "(of_char c :: nat) < 256"
  by (rule nat_of_char_less_256)

lemma a2b_pad:
  "a2b_base64 q l p (CHR ''='' # rest) out =
     (if q \<ge> 2 \<and> q + (p + 1) \<ge> 4 then Inr out
      else if q \<ge> 2 then a2b_base64 q l (p + 1) rest out
      else a2b_base64 q l p rest out)"
  by simp

lemma byte_bounds_char:
  "(of_char a :: nat) div 4 < 64"
  "(of_char a :: nat) mod 4 * 16 + (of_char b :: nat) div 16 < 64"
  "(of_char b :: nat) mod 16 * 4 + (of_char c :: nat) div 64 < 64"
  "(of_char c :: nat) mod 64 < 64"
  "(of_char a :: nat) mod 4 * 16 < 64"
  "(of_char b :: nat) mod 16 * 4 < 64"
  using byte_bounds [of "of_char a" "of_char b" "of_char c"]
  by (simp_all add: of_char_byte)

lemma a2b_base64_b64encode: "a2b_base64 0 0 0 (b64encode t) out = Inr (out @ t)"
proof (induction t arbitrary: out rule: b64encode.induct)
  case 1
  then show ?case by simp
next
  case (2 a)
  let ?x = "of_char a :: nat"
  have "char_of (?x div 4 * 4 + (?x mod 4 * 16) div 16) = a"
    using byte_parts(4) [OF of_char_byte of_char_byte] by simp
  then show ?case
    by (simp add: Let_def a2b_data a2b_pad byte_bounds_char del: a2b_base64.simps(2))
next
  case (3 a b)
  let ?x = "of_char a :: nat" and ?y = "of_char b :: nat"
  have "char_of (?x div 4 * 4 + (?x mod 4 * 16 + ?y div 16) div 16) = a"
    using byte_parts(1) [OF of_char_byte of_char_byte] by simp
  moreover have "char_of ((?x mod 4 * 16 + ?y div 16) mod 16 * 16 + (?y mod 16 * 4) div 4) = b"
    using byte_parts(5) [OF of_char_byte of_char_byte] by simp
  ultimately show ?case
    by (simp add: Let_def a2b_data a2b_pad byte_bounds_char del: a2b_base64.simps(2))
next
  case (4 a b c rest)
  let ?x = "of_char a :: nat" and ?y = "of_char b :: nat" and ?z = "of_char c :: nat"
  have "char_of (?x div 4 * 4 + (?x mod 4 * 16 + ?y div 16) div 16) = a"
    using byte_parts(1) [OF of_char_byte of_char_byte] by simp
  moreover have
    "char_of ((?x mod 4 * 16 + ?y div 16) mod 16 * 16 + (?y mod 16 * 4 + ?z div 64) div 4) = b"
    using byte_parts(2) [OF of_char_byte of_char_byte] by simp
  moreover have "char_of ((?y mod 16 * 4 + ?z div 64) mod 4 * 64 + ?z mod 64) = c"
    using byte_parts(3) [OF of_char_byte of_char_byte] by simp
  ultimately show ?case
    using "4.IH"
    by (simp add: Let_def a2b_data a2b_pad byte_bounds_char del: a2b_base64.simps(2))
qed

lemma plain_pad:
  "\<not> is_space CHR ''='' \<and> \<not> is_linebreak CHR ''='' \<and> CHR ''='' \<noteq> CR
   \<and> (of_char CHR ''='' :: nat) < 128"
  by (simp add: is_space_def is_linebreak_def CR_def)

lemma b64encode_alphabet: "set (b64encode t) \<subseteq> insert CHR ''='' (set b64_alphabet)"
  by (induction t rule: b64encode.induct)
     (simp_all add: Let_def b64_char_def length_b64_alphabet byte_bounds_char)

lemma b64encode_chars:
  "x \<in> set (b64encode t) \<Longrightarrow>
   \<not> is_space x \<and> \<not> is_linebreak x \<and> x \<noteq> CR \<and> (of_char x :: nat) < 128"
  using b64encode_alphabet [of t] plain_pad b64_alphabet_plain [of x] by auto

lemma b64encode_nonempty: "t \<noteq> [] \<Longrightarrow> b64encode t \<noteq> []"
  by (induction t rule: b64encode.induct) (simp_all add: Let_def)

lemma b64decode_b64encode: "b64decode (b64encode t) = Inr t"
proof -
  have "list_all (\<lambda>c. (of_char c :: nat) < 128) (b64encode t)"
    using b64encode_chars [of _ t] by (auto simp: list_all_iff)
  then show ?thesis
    using a2b_base64_b64encode [of t "[]"] by (simp add: b64decode_def)
qed

subsection \<open>A file of written lines loads as the table written\<close>


lemma tiktoken_file_text_lines:
  "tiktoken_file_text ranks = concat (map (\<lambda>l. l @ [LF]) (map tiktoken_line ranks))"
  unfolding tiktoken_file_text_def tiktoken_line_def
  by (induction ranks) auto

lemma digit_plain:
  "is_digit c \<Longrightarrow> \<not> is_space c \<and> \<not> is_linebreak c \<and> c \<noteq> CR"
  by (auto simp: is_digit_def is_space_def is_linebreak_def CR_def)

lemma str_int_chars: "c \<in> set (str_int i) \<Longrightarrow> \<not> is_space c \<and> \<not> is_linebreak c \<and> c \<noteq> CR"
proof -
  assume "c \<in> set (str_int i)"
  then have "c = CHR ''-'' \<or> is_digit c"
    by (auto simp: str_int_def dest: str_nat_digits split: if_splits)
  moreover have "\<not> is_space CHR ''-'' \<and> \<not> is_linebreak CHR ''-'' \<and> CHR ''-'' \<noteq> CR"
    by (simp add: is_space_def is_linebreak_def CR_def)
  ultimately show ?thesis
    using digit_plain [of c] by auto
qed

lemma str_int_nonempty: "str_int i \<noteq> []"
  by (simp add: str_int_def str_nat_nonempty)

lemma tiktoken_line_chars: "c \<in> set (tiktoken_line e) \<Longrightarrow> \<not> is_linebreak c \<and> c \<noteq> CR"
proof -
  assume "c \<in> set (tiktoken_line e)"
  then have "c \<in> set (b64encode (fst e)) \<or> c = CHR '' '' \<or> c \<in> set (str_int (snd e))"
    by (auto simp: tiktoken_line_def)
  moreover have "\<not> is_linebreak CHR '' '' \<and> CHR '' '' \<noteq> CR"
    by (simp add: is_linebreak_def CR_def)
  ultimately show ?thesis
    using b64encode_chars [of c "fst e"] str_int_chars [of c "snd e"] by auto
qed

lemma split_tiktoken_line:
  "fst e \<noteq> [] \<Longrightarrow> split (tiktoken_line e) = [b64encode (fst e), str_int (snd e)]"
  unfolding tiktoken_line_def
  by (rule split_two)
     (auto simp: b64encode_nonempty str_int_nonempty dest: b64encode_chars str_int_chars)

lemma tiktoken_line_nonempty: "tiktoken_line e \<noteq> []"
  by (simp add: tiktoken_line_def)

lemma load_lines_canonical:
  "distinct (map fst (data @ ranks)) \<Longrightarrow> \<forall>e \<in> set ranks. fst e \<noteq> [] \<Longrightarrow>
   load_lines (map tiktoken_line ranks) data = Inr (data @ ranks)"
proof (induction ranks arbitrary: data)
  case Nil
  then show ?case by simp
next
  case (Cons e ranks)
  obtain t r where e: "e = (t, r)" by (cases e)
  have fresh: "t \<notin> fst ` set data"
    using Cons.prems(1) by (auto simp: e)
  have "load_lines (map tiktoken_line (e # ranks)) data
        = load_lines (map tiktoken_line ranks) (data @ [(t, r)])"
    using Cons.prems(2)
    by (simp add: tiktoken_line_nonempty split_tiktoken_line py_int_str_int b64decode_b64encode
        update_fresh [OF fresh] e)
  also have "\<dots> = Inr ((data @ [(t, r)]) @ ranks)"
    using Cons.prems by (intro Cons.IH) (simp_all add: e)
  finally show ?case by (simp add: e)
qed

lemma splitlines_file_text:
  "splitlines (universal_newlines (tiktoken_file_text ranks)) = map tiktoken_line ranks"
proof -
  have "CR \<notin> set (tiktoken_file_text ranks)"
    using tiktoken_line_chars by (auto simp: tiktoken_file_text_lines LF_def CR_def)
  then have "universal_newlines (tiktoken_file_text ranks) = tiktoken_file_text ranks"
    by (rule universal_newlines_id)
  moreover have "splitlines (concat (map (\<lambda>l. l @ [LF]) (map tiktoken_line ranks)))
                 = map tiktoken_line ranks"
    by (rule splitlines_lines) (use tiktoken_line_chars in auto)
  ultimately show ?thesis
    by (simp only: tiktoken_file_text_lines)
qed

lemma load_canonical_file:
  assumes "fs p = Some (File (tiktoken_file_text ranks))"
    and "distinct (map fst ranks)" and "\<forall>e \<in> set ranks. fst e \<noteq> []"
  shows "load_tiktoken_bpe fs p = Inr ranks"
  using load_lines_canonical [of "[]" ranks] assms
  by (simp add: load_tiktoken_bpe_def open_read_def splitlines_file_text)

section \<open>Properties of \<^verbatim>\<open>save_pretrained\<close>\<close>

subsection \<open>The special-tokens JSON\<close>

lemma json_plain_escape: "json_plain c \<Longrightarrow> json_escape_char c = [c]"
  by (auto simp: json_plain_def json_escape_char_def)

lemma json_non_ascii:
  assumes "(128::nat) \<le> of_char c"
  shows "json_escape_char c = [c]"
proof -
  have 1: "c \<noteq> CHR 0x22" using assms by auto
  have 2: "c \<noteq> CHR 0x5C" using assms by auto
  have 3: "c \<noteq> CHR 0x08" using assms by auto
  have 4: "c \<noteq> CHR 0x0C" using assms by auto
  have 5: "c \<noteq> CHR 0x0A" using assms by auto
  have 6: "c \<noteq> CHR 0x0D" using assms by auto
  have 7: "c \<noteq> CHR 0x09" using assms by auto
  have 8: "\<not> (of_char c :: nat) < 32" using assms by simp
  show ?thesis
    unfolding json_escape_char_def
    by (simp only: 1 2 3 4 5 6 7 8 if_False)
qed

lemma concat_map_single: "(\<And>c. c \<in> set t \<Longrightarrow> f c = [c]) \<Longrightarrow> concat (map f t) = t"
  by (induction t) auto

lemma digit_json_plain: "is_digit c \<Longrightarrow> json_plain c"
  by (auto simp: is_digit_def json_plain_def)

lemma fixed_json_plain: "list_all (list_all json_plain) fixed_special_tokens"
  by code_simp

lemma template_json_plain: "list_all json_plain ''<|semantic:|>''"
  by code_simp

lemma special_token_json_plain: "t \<in> set ALL_SPECIAL_TOKENS \<Longrightarrow> c \<in> set t \<Longrightarrow> json_plain c"
proof -
  assume t: "t \<in> set ALL_SPECIAL_TOKENS" and c: "c \<in> set t"
  from t consider "t \<in> set fixed_special_tokens" | i where "t = SEMANTIC_TOKEN_TEMPLATE i"
    by (auto simp: ALL_SPECIAL_TOKENS_eq SEMANTIC_TOKENS_def)
  then show ?thesis
  proof cases
    case 1
    with c show ?thesis
      using fixed_json_plain by (auto simp: list_all_iff)
  next
    case 2
    with c have "c \<in> set ''<|semantic:|>'' \<or> c \<in> set (str_nat i)"
      by (auto simp: SEMANTIC_TOKEN_TEMPLATE_def)
    then show ?thesis
      using str_nat_digits [of c i] digit_json_plain [of c] template_json_plain
      by (auto simp: list_all_iff simp del: set_simps)
  qed
qed

lemma json_string_special_token:
  "t \<in> set ALL_SPECIAL_TOKENS \<Longrightarrow> json_string t = [CHR 0x22] @ t @ [CHR 0x22]"
  unfolding json_string_def
  using concat_map_single [of t json_escape_char] special_token_json_plain [of t]
    json_plain_escape
  by simp

lemma json_dump_special_items: "json_dump_indent2 (special_items b) = special_tokens_json b"
proof -
  have "length (special_items b) = 1036"
    by (simp add: special_items_zip length_ALL_SPECIAL_TOKENS)
  then have ne: "special_items b \<noteq> []"
    by auto
  have "map (\<lambda>(k, v). ''  '' @ json_string k @ '': '' @ str_nat v) (special_items b)
        = map (\<lambda>(i, token). ''  '' @ [CHR 0x22] @ token @ [CHR 0x22] @ '': '' @ str_nat (b + i))
              (enumerate 0 ALL_SPECIAL_TOKENS)"
    unfolding special_items_def
    by (auto simp: in_set_enumerate_eq json_string_special_token)
  then show ?thesis
    using ne by (simp add: json_dump_indent2_def special_tokens_json_def)
qed

subsection \<open>What \<^verbatim>\<open>save_pretrained\<close> writes\<close>

lemma open_write_Inr: "open_write fs p c = Inr fs' \<Longrightarrow> fs' = fs(p \<mapsto> File c)"
  by (auto simp: open_write_def split: option.splits fs_node.splits if_splits)

lemma save_pretrained_Inr:
  assumes "save_pretrained tk fs dir = Inr fs'"
  shows "fs' (dir @ [''tokenizer.tiktoken''])
           = Some (File (tiktoken_file_text (enc_mergeable_ranks (tkt_model tk))))
         \<and> fs' (dir @ [''special_tokens.json''])
           = Some (File (json_dump_indent2 (all_special_tokens_with_ids tk)))"
proof -
  from assms obtain fs1 fs2 where
    w1: "open_write fs1 (dir @ [''tokenizer.tiktoken''])
           (tiktoken_file_text (enc_mergeable_ranks (tkt_model tk))) = Inr fs2"
    and w2: "open_write fs2 (dir @ [''special_tokens.json''])
           (json_dump_indent2 (all_special_tokens_with_ids tk)) = Inr fs'"
    by (auto simp: save_pretrained_def split: sum.splits)
  show ?thesis
    using open_write_Inr [OF w1] open_write_Inr [OF w2] by simp
qed

subsection \<open>The table a load returns has each token once\<close>

lemma load_lines_distinct:
  "load_lines ls d = Inr r \<Longrightarrow> distinct (map fst d) \<Longrightarrow> distinct (map fst r)"
proof (induction ls arbitrary: d)
  case Nil
  then show ?case by simp
next
  case (Cons l ls)
  show ?case
  proof (cases "l = []")
    case True
    with Cons show ?thesis by simp
  next
    case False
    with Cons.prems(1) obtain tok rk where
      "load_lines ls (AList.update tok rk d) = Inr r"
      by (auto split: list.splits sum.splits)
    moreover have "distinct (map fst (AList.update tok rk d))"
      using Cons.prems(2) by (rule distinct_update)
    ultimately show ?thesis by (rule Cons.IH)
  qed
qed

lemma load_tiktoken_bpe_distinct: "load_tiktoken_bpe fs p = Inr r \<Longrightarrow> distinct (map fst r)"
  using load_lines_distinct [of _ "[]" r]
  by (auto simp: load_tiktoken_bpe_def split: sum.splits)

subsection \<open>The example files\<close>

lemma canonical_file_text: "canonical_file = tiktoken_file_text [(''a'', 0), (''b'', 1)]"
  by code_simp

lemma load_canon:
  "load_tiktoken_bpe example_fs [''canon'', ''tokenizer.tiktoken''] = Inr [(''a'', 0), (''b'', 1)]"
  by (rule load_canonical_file) (simp_all add: example_fs_def canonical_file_text)

lemma load_twice:
  "load_tiktoken_bpe example_fs [''twice'', ''tokenizer.tiktoken''] = Inr [(''a'', 1)]"
  by code_simp

lemma twice_file_text: "tiktoken_file_text [(''a'', 1)] = ''YQ== 1'' @ [LF]"
  by code_simp

lemma save_example: "\<exists>fs'. save_pretrained tk example_fs [''out''] = Inr fs'"
  by (simp add: save_pretrained_def mkdir_parents_def open_write_def example_fs_def)

section \<open>Claims about the chunking\<close>

text \<open>
  C6. For every input text, the chunks returned by \<^verbatim>\<open>tokenize(text)\<close> partition the text
  contiguously and in order (their concatenation is the text, and chunk \<open>k\<close> is the slice
  that starts at \<open>k * 400000\<close>), every chunk has at most 400,000 characters, and every chunk
  but possibly the last has exactly 400,000.
\<close>

theorem tokenize_partitions_text:
  "TIKTOKEN_MAX_ENCODE_CHARS = 400000
   \<and> concat (tokenize s) = s
   \<and> (\<forall>k < length (tokenize s). tokenize s ! k = take 400000 (drop (k * 400000) s))
   \<and> (\<forall>c \<in> set (tokenize s). length c \<le> 400000)
   \<and> (\<forall>c \<in> set (butlast (tokenize s)). length c = 400000)"
proof -
  have N: "TIKTOKEN_MAX_ENCODE_CHARS = 400000"
    by (simp add: TIKTOKEN_MAX_ENCODE_CHARS_def)
  have "concat (tokenize s) = s"
    unfolding tokenize_def by (simp add: tokenize_loop_concat)
  moreover have "\<forall>k < length (tokenize s). tokenize s ! k = take 400000 (drop (k * 400000) s)"
    using tokenize_nth [of _ s] unfolding N by blast
  moreover have "\<forall>c \<in> set (tokenize s). length c \<le> 400000"
    using tokenize_loop_bound [of "[]" _ s 0] unfolding tokenize_def N by simp
  moreover have "\<forall>c \<in> set (butlast (tokenize s)). length c = 400000"
    using tokenize_butlast_full [of _ s] unfolding N by blast
  ultimately show ?thesis using N by blast
qed

lemma tokenize_example:
  "tokenize (replicate 400001 CHR ''a'') = [replicate 400000 CHR ''a'', ''a'']"
  unfolding tokenize_def
  by (subst tokenize_loop.simps, simp add: TIKTOKEN_MAX_ENCODE_CHARS_def,
      subst tokenize_loop.simps, simp add: TIKTOKEN_MAX_ENCODE_CHARS_def,
      subst tokenize_loop.simps, simp add: TIKTOKEN_MAX_ENCODE_CHARS_def)

theorem tokenize_partitions_text_witness:
  "tokenize (replicate 400001 CHR ''a'') = [replicate 400000 CHR ''a'', ''a'']
   \<and> concat (tokenize (replicate 400001 CHR ''a'')) = replicate 400001 CHR ''a''
   \<and> length (tokenize (replicate 400001 CHR ''a'') ! 0) = 400000
   \<and> length (tokenize (replicate 400001 CHR ''a'') ! 1) \<le> 400000"
proof -
  let ?w = "replicate 400001 CHR ''a''"
  note t = tokenize_partitions_text [of ?w]
  have a: "concat (tokenize ?w) = ?w"
    using t by blast
  have b: "\<forall>c \<in> set (butlast (tokenize ?w)). length c = 400000"
    using t by blast
  have c: "\<forall>c \<in> set (tokenize ?w). length c \<le> 400000"
    using t by blast
  have "length (tokenize ?w ! 0) = 400000"
    using b by (simp add: tokenize_example)
  moreover have "length (tokenize ?w ! 1) \<le> 400000"
    using c by (simp add: tokenize_example)
  ultimately show ?thesis
    using a tokenize_example by simp
qed
section \<open>Claims about the special-token registry\<close>

text \<open>
  C4 asks that construction give each registered special token the id \<open>size + position\<close>,
  and that \<^verbatim>\<open>get_token_id("<|begin_of_text|>")\<close> return \<open>size + 0\<close>. The constructor does not
  get that far. Line 67 calls \<^verbatim>\<open>load_tiktoken_bpe\<close> through the instance; the \<^verbatim>\<open>def\<close> has the
  one parameter \<^verbatim>\<open>tiktoken_bpe_file\<close>, so the call raises \<^verbatim>\<open>TypeError\<close>, for every library,
  file system and path, before the file is opened and before lines 69--71 assign an id. On
  the example model file, which \<^verbatim>\<open>load_tiktoken_bpe\<close> called as a plain function loads into
  a table of two entries, no tokenizer is returned and \<^verbatim>\<open>get_token_id\<close> is not reached. The
  dictionary that lines 69--71 describe for a table of two entries would give
  \<^verbatim>\<open><|begin_of_text|>\<close> the id 2.
\<close>

theorem constructor_raises_before_assigning_ids:
  "FishTokenizer_init lib fs p = Inl (TypeError ''load_tiktoken_bpe'')
   \<and> then_call (FishTokenizer_init byte_core example_fs [''model'', ''tokenizer.tiktoken''])
       (\<lambda>tk. get_token_id tk ''<|begin_of_text|>'')
     = Inl (TypeError ''load_tiktoken_bpe'')
   \<and> load_tiktoken_bpe example_fs [''model'', ''tokenizer.tiktoken'']
     = Inr [(''a'', 0), (''b'', 1)]
   \<and> dict_get (special_tokens_with_ids 2) ''<|begin_of_text|>'' = Inr 2"
proof -
  have "dict_get (special_items 2) (ALL_SPECIAL_TOKENS ! 0) = Inr (2 + 0)"
    by (rule dict_get_special_items) (simp add: length_ALL_SPECIAL_TOKENS)
  then have "dict_get (special_tokens_with_ids 2) ''<|begin_of_text|>'' = Inr 2"
    by (simp add: special_tokens_with_ids_items ALL_SPECIAL_TOKENS_first)
  moreover have "load_tiktoken_bpe example_fs [''model'', ''tokenizer.tiktoken'']
                 = Inr [(''a'', 0), (''b'', 1)]"
    using load_example by (simp add: example_path_def)
  ultimately show ?thesis
    by (simp add: FishTokenizer_init_raises then_call_def)
qed

text \<open>
  C3, as stated, asks that \<^verbatim>\<open>get_token_id(f"semantic:{i}")\<close> succeed. On the example model
  file the constructor raises \<^verbatim>\<open>TypeError\<close> (line 67), so there is no tokenizer to ask. And
  the name is not one the module registers: the registered names are \<^verbatim>\<open>"<|semantic:{i}|>"\<close>
  (line 45), \<^verbatim>\<open>"semantic:0"\<close> is not in \<^verbatim>\<open>ALL_SPECIAL_TOKENS\<close>, and in the dictionary that
  lines 69--71 describe for a table of two entries the lookup of \<^verbatim>\<open>"semantic:0"\<close> raises
  \<^verbatim>\<open>KeyError\<close>, where that of \<^verbatim>\<open>"<|semantic:0|>"\<close> gives 14.
\<close>

theorem semantic_name_without_brackets_counterexample:
  "then_call (FishTokenizer_init byte_core example_fs [''model'', ''tokenizer.tiktoken''])
     (\<lambda>tk. get_token_id tk ''semantic:0'')
     = Inl (TypeError ''load_tiktoken_bpe'')
   \<and> ''semantic:0'' \<notin> set ALL_SPECIAL_TOKENS
   \<and> SEMANTIC_TOKENS ! 0 = ''<|semantic:0|>''
   \<and> dict_get (special_tokens_with_ids 2) ''semantic:0'' = Inl (KeyError ''semantic:0'')
   \<and> dict_get (special_tokens_with_ids 2) ''<|semantic:0|>'' = Inr 14"
proof -
  have a: "''semantic:0'' \<notin> set ALL_SPECIAL_TOKENS"
    using no_bare_semantic_name [of "''0''"] by simp
  then have b: "dict_get (special_tokens_with_ids 2) ''semantic:0'' = Inl (KeyError ''semantic:0'')"
    by (simp add: special_tokens_with_ids_items dict_get_def map_of_special_items_None)
  have t: "SEMANTIC_TOKEN_TEMPLATE 0 = ''<|semantic:0|>''"
    by (simp add: SEMANTIC_TOKEN_TEMPLATE_def str_nat.simps digit_char_def)
  have "dict_get (special_items 2) (SEMANTIC_TOKEN_TEMPLATE 0) = Inr (2 + 12 + 0)"
    by (rule dict_get_semantic) simp
  then have c: "dict_get (special_tokens_with_ids 2) ''<|semantic:0|>'' = Inr 14"
    by (simp add: special_tokens_with_ids_items t)
  have d: "SEMANTIC_TOKENS ! 0 = ''<|semantic:0|>''"
    using nth_SEMANTIC_TOKENS [of 0] by (simp add: t)
  show ?thesis
    using a b c d by (simp add: FishTokenizer_init_raises then_call_def)
qed

text \<open>
  C3, amended. For every \<open>i\<close> in \<open>0..1023\<close> the registered name of semantic token \<open>i\<close> is
  \<^verbatim>\<open>"<|semantic:{i}|>"\<close>; \<^verbatim>\<open>"semantic:{i}"\<close> is not registered, and looking it up raises
  \<^verbatim>\<open>KeyError\<close>. \<^verbatim>\<open>get_token_id\<close> looks a name up in the object's dictionary. In the
  dictionary that lines 69--71 describe for a merge table of \<open>b\<close> entries, the id of
  \<^verbatim>\<open>"<|semantic:{i}|>"\<close> is \<open>b + 12 + i\<close>: the 1024 names are pairwise distinct, and their ids
  are pairwise distinct and fill the interval from \<open>b + 12\<close>, the id of the first name, to
  \<open>b + 1035\<close>, the id of the last, the two ids that lines 76--77 read as \<^verbatim>\<open>semantic_begin_id\<close>
  and \<^verbatim>\<open>semantic_end_id\<close>. Whether the constructor returns an object that holds the
  dictionary is no part of the statement.
\<close>

theorem semantic_ids_contiguous:
  "(\<forall>i < 1024.
      SEMANTIC_TOKENS ! i = ''<|semantic:'' @ str_nat i @ ''|>''
      \<and> ''semantic:'' @ str_nat i \<notin> set ALL_SPECIAL_TOKENS
      \<and> dict_get (special_tokens_with_ids b) (''<|semantic:'' @ str_nat i @ ''|>'')
          = Inr (b + 12 + i)
      \<and> dict_get (special_tokens_with_ids b) (''semantic:'' @ str_nat i)
          = Inl (KeyError (''semantic:'' @ str_nat i)))
   \<and> get_token_id self t = dict_get (all_special_tokens_with_ids self) t
   \<and> distinct SEMANTIC_TOKENS
   \<and> dict_get (special_tokens_with_ids b) (SEMANTIC_TOKENS ! 0) = Inr (b + 12)
   \<and> dict_get (special_tokens_with_ids b) (last SEMANTIC_TOKENS) = Inr (b + 1035)
   \<and> (\<forall>n. b + 12 \<le> n \<and> n \<le> b + 1035 \<longrightarrow>
          (\<exists>i < 1024. dict_get (special_tokens_with_ids b) (''<|semantic:'' @ str_nat i @ ''|>'')
                         = Inr n))"
proof -
  let ?d = "special_tokens_with_ids b"
  have get: "dict_get ?d (''<|semantic:'' @ str_nat i @ ''|>'') = Inr (b + 12 + i)"
    if "i < 1024" for i
    using dict_get_semantic [OF that, of b]
    by (simp add: special_tokens_with_ids_items SEMANTIC_TOKEN_TEMPLATE_def)
  have name: "SEMANTIC_TOKENS ! i = ''<|semantic:'' @ str_nat i @ ''|>''" if "i < 1024" for i
    using that by (simp add: nth_SEMANTIC_TOKENS SEMANTIC_TOKEN_TEMPLATE_def)
  have miss: "dict_get ?d (''semantic:'' @ str_nat i) = Inl (KeyError (''semantic:'' @ str_nat i))"
    for i
    using no_bare_semantic_name [of "str_nat i"]
    by (simp add: special_tokens_with_ids_items dict_get_def map_of_special_items_None)
  have first: "dict_get ?d (SEMANTIC_TOKENS ! 0) = Inr (b + 12)"
    using get [of 0] name [of 0] by simp
  have final: "dict_get ?d (last SEMANTIC_TOKENS) = Inr (b + 1035)"
    using get [of 1023] by (simp add: last_SEMANTIC_TOKENS SEMANTIC_TOKEN_TEMPLATE_def)
  have fill: "\<exists>i < 1024. dict_get ?d (''<|semantic:'' @ str_nat i @ ''|>'') = Inr n"
    if "b + 12 \<le> n" "n \<le> b + 1035" for n
  proof -
    have "n - (b + 12) < 1024" using that by simp
    moreover have "b + 12 + (n - (b + 12)) = n" using that by simp
    ultimately show ?thesis using get [of "n - (b + 12)"] by auto
  qed
  have look: "get_token_id self t = dict_get (all_special_tokens_with_ids self) t"
    by (simp add: get_token_id_def)
  from get name miss first final fill look distinct_SEMANTIC_TOKENS no_bare_semantic_name
  show ?thesis
    by blast
qed

theorem semantic_ids_contiguous_witness:
  "(0::nat) < 1024 \<and> (1023::nat) < 1024
   \<and> SEMANTIC_TOKENS ! 1023 = ''<|semantic:1023|>''
   \<and> dict_get (special_tokens_with_ids 2) ''<|semantic:0|>'' = Inr 14
   \<and> dict_get (special_tokens_with_ids 2) ''<|semantic:1023|>'' = Inr 1037
   \<and> dict_get (special_tokens_with_ids 2) ''semantic:1023'' = Inl (KeyError ''semantic:1023'')
   \<and> (2::nat) + 12 \<le> 1000 \<and> (1000::nat) \<le> 2 + 1035
   \<and> dict_get (special_tokens_with_ids 2) ''<|semantic:986|>'' = Inr 1000"
proof -
  note main = semantic_ids_contiguous [where b = 2 and self = example_tokenizer and t = "''x''"]
  have s0: "str_nat 0 = ''0''" and s1: "str_nat 1023 = ''1023''" and s2: "str_nat 986 = ''986''"
    by (simp_all add: str_nat.simps digit_char_def)
  from main have every: "\<forall>i < 1024.
      SEMANTIC_TOKENS ! i = ''<|semantic:'' @ str_nat i @ ''|>''
      \<and> ''semantic:'' @ str_nat i \<notin> set ALL_SPECIAL_TOKENS
      \<and> dict_get (special_tokens_with_ids 2) (''<|semantic:'' @ str_nat i @ ''|>'')
          = Inr (2 + 12 + i)
      \<and> dict_get (special_tokens_with_ids 2) (''semantic:'' @ str_nat i)
          = Inl (KeyError (''semantic:'' @ str_nat i))"
    by (rule conjunct1)
  have a: "dict_get (special_tokens_with_ids 2) ''<|semantic:0|>'' = Inr 14"
    using every [rule_format, of 0] by (simp add: s0)
  have b: "SEMANTIC_TOKENS ! 1023 = ''<|semantic:1023|>''"
    and c: "dict_get (special_tokens_with_ids 2) ''<|semantic:1023|>'' = Inr 1037"
    and d: "dict_get (special_tokens_with_ids 2) ''semantic:1023'' = Inl (KeyError ''semantic:1023'')"
    using every [rule_format, of 1023] by (simp_all add: s1)
  have e: "dict_get (special_tokens_with_ids 2) ''<|semantic:986|>'' = Inr 1000"
    using every [rule_format, of 986] by (simp add: s2)
  from a b c d e show ?thesis
    by simp
qed

section \<open>Claims about encoding\<close>

text \<open>
  C10. For an argument that is neither a string nor a list, \<^verbatim>\<open>encode\<close> returns no value:
  the \<^verbatim>\<open>assert\<close> of line 124 fails, since no value is a string and a list at once (and were
  the assertion compiled away, line 126 would read the unassigned \<^verbatim>\<open>ids\<close>). For a string or
  a list the branch is not reached: for a string the result is the \<^verbatim>\<open>TypeError\<close> of line
  119, for a list it is that of \<^verbatim>\<open>convert_tokens_to_ids\<close>, which raises neither of the two
  errors.
\<close>

theorem encode_rejects_other_arguments:
  "\<not> (isinstance_str v \<and> isinstance_list v)
   \<and> (\<not> isinstance_str v \<and> \<not> isinstance_list v \<longrightarrow>
        (\<exists>e. encode env self v a = Inl e)
        \<and> (env_debug env \<longrightarrow> encode env self v a = Inl AssertionError))
   \<and> encode env self (PyStr s) a = Inl (TypeError ''tokenize'')
   \<and> encode env self (PyList l) a = convert_tokens_to_ids env self l a
   \<and> convert_tokens_to_ids env self tokens a \<noteq> Inl AssertionError
   \<and> convert_tokens_to_ids env self tokens a \<noteq> Inl (UnboundLocalError ''ids'')"
proof -
  have "\<not> (isinstance_str v \<and> isinstance_list v)"
    by (cases v) (simp_all add: isinstance_str_def isinstance_list_def)
  moreover have "convert_tokens_to_ids env self tokens a \<noteq> Inl AssertionError"
    using convert_tokens_to_ids_errors [of env self tokens a AssertionError] by auto
  moreover have "convert_tokens_to_ids env self tokens a \<noteq> Inl (UnboundLocalError ''ids'')"
    using convert_tokens_to_ids_errors [of env self tokens a "UnboundLocalError ''ids''"] by auto
  ultimately show ?thesis
    by (simp add: encode_other encode_str encode_list)
qed

theorem encode_rejects_other_arguments_witness:
  "\<not> isinstance_str PyNone \<and> \<not> isinstance_list (PyInt 3)
   \<and> (\<forall>self. encode (module_env True) self PyNone (AllowedBool True) = Inl AssertionError)
   \<and> (\<forall>self. encode (module_env True) self (PyInt 3) (AllowedSet {}) = Inl AssertionError)"
proof -
  have n: "\<not> isinstance_str PyNone" "\<not> isinstance_list PyNone"
    and i: "\<not> isinstance_str (PyInt 3)" "\<not> isinstance_list (PyInt 3)"
    by (simp_all add: isinstance_str_def isinstance_list_def)
  have d: "env_debug (module_env True)"
    by (simp add: module_env_def)
  have "encode (module_env True) self PyNone (AllowedBool True) = Inl AssertionError" for self
    using encode_rejects_other_arguments [of PyNone "module_env True" self "AllowedBool True"] n d
    by blast
  moreover have "encode (module_env True) self (PyInt 3) (AllowedSet {}) = Inl AssertionError"
    for self
    using encode_rejects_other_arguments [of "PyInt 3" "module_env True" self "AllowedSet {}"] i d
    by blast
  ultimately show ?thesis
    using n i by blast
qed

text \<open>
  C9. With \<^verbatim>\<open>allowed_special=True\<close>, \<^verbatim>\<open>encode\<close> and \<^verbatim>\<open>convert_tokens_to_ids\<close> behave as
  with the set of the special-token names registered in the object's tiktoken model
  (\<^verbatim>\<open>self.tkt_model.special_tokens_set\<close>, line 106), and with \<^verbatim>\<open>allowed_special=False\<close> as
  with the empty set: for every object, every argument and every environment, whether the
  call returns or raises. Where the model's special tokens are the dictionary of lines
  69--71, as line 83 passes it, that set is the set of \<^verbatim>\<open>ALL_SPECIAL_TOKENS\<close>.
\<close>

theorem allowed_special_boolean_shorthand:
  "convert_tokens_to_ids env self tokens (AllowedBool True)
     = convert_tokens_to_ids env self tokens (AllowedSet (special_tokens_set (tkt_model self)))
   \<and> convert_tokens_to_ids env self tokens (AllowedBool False)
     = convert_tokens_to_ids env self tokens (AllowedSet {})
   \<and> encode env self v (AllowedBool True)
     = encode env self v (AllowedSet (special_tokens_set (tkt_model self)))
   \<and> encode env self v (AllowedBool False) = encode env self v (AllowedSet {})
   \<and> (enc_special_tokens (tkt_model self) = special_tokens_with_ids b \<longrightarrow>
        convert_tokens_to_ids env self tokens (AllowedBool True)
          = convert_tokens_to_ids env self tokens (AllowedSet (set ALL_SPECIAL_TOKENS))
        \<and> encode env self v (AllowedBool True)
          = encode env self v (AllowedSet (set ALL_SPECIAL_TOKENS)))"
proof -
  have c: "convert_tokens_to_ids env self ts (AllowedBool True)
             = convert_tokens_to_ids env self ts (AllowedSet (special_tokens_set (tkt_model self)))"
    "convert_tokens_to_ids env self ts (AllowedBool False)
             = convert_tokens_to_ids env self ts (AllowedSet {})" for ts
    by (simp_all add: convert_tokens_to_ids_def)
  have e: "encode env self v (AllowedBool True)
             = encode env self v (AllowedSet (special_tokens_set (tkt_model self)))
           \<and> encode env self v (AllowedBool False) = encode env self v (AllowedSet {})"
  proof (cases v)
    case (PyStr s)
    then show ?thesis by (simp add: encode_str)
  next
    case (PyList l)
    then show ?thesis by (simp add: encode_list c)
  next
    case (PyInt n)
    then show ?thesis by (simp add: encode_def)
  next
    case PyNone
    then show ?thesis by (simp add: encode_def)
  qed
  have "special_tokens_set (tkt_model self) = set ALL_SPECIAL_TOKENS"
    if "enc_special_tokens (tkt_model self) = special_tokens_with_ids b"
    using that by (rule special_tokens_set_registry)
  with c e show ?thesis
    by simp
qed

text \<open>
  An instance in which the translation shows. The object holds the dictionary of lines
  69--71 for a table of two entries, and the batch is read from an environment in which a
  caller has bound \<^verbatim>\<open>subs\<close> to the list of the one text \<^verbatim>\<open><|pad|>\<close> (the module itself does
  not bind the name: there the calls raise \<^verbatim>\<open>NameError\<close>, with \<^verbatim>\<open>True\<close> as with the set).
  \<^verbatim>\<open>True\<close> gives the id 4 of \<^verbatim>\<open><|pad|>\<close>, as the set of all names does; \<^verbatim>\<open>False\<close> gives the
  codes of the seven characters, as the empty set does.
\<close>

theorem allowed_special_boolean_shorthand_witness:
  "enc_special_tokens (tkt_model example_tokenizer) = special_tokens_with_ids 2
   \<and> convert_tokens_to_ids \<lparr>env_debug = True, env_os = False, env_subs = Some [''<|pad|>'']\<rparr>
       example_tokenizer [PyStr ''<|pad|>''] (AllowedBool True) = Inr [4]
   \<and> convert_tokens_to_ids \<lparr>env_debug = True, env_os = False, env_subs = Some [''<|pad|>'']\<rparr>
       example_tokenizer [PyStr ''<|pad|>''] (AllowedSet (set ALL_SPECIAL_TOKENS)) = Inr [4]
   \<and> convert_tokens_to_ids \<lparr>env_debug = True, env_os = False, env_subs = Some [''<|pad|>'']\<rparr>
       example_tokenizer [PyStr ''<|pad|>''] (AllowedBool False) = Inr [60, 124, 112, 97, 100, 124, 62]
   \<and> convert_tokens_to_ids \<lparr>env_debug = True, env_os = False, env_subs = Some [''<|pad|>'']\<rparr>
       example_tokenizer [PyStr ''<|pad|>''] (AllowedSet {}) = Inr [60, 124, 112, 97, 100, 124, 62]
   \<and> encode (module_env True) example_tokenizer (PyList [PyStr ''<|pad|>'']) (AllowedBool True)
     = Inl (NameError ''subs'')
   \<and> encode (module_env True) example_tokenizer (PyList [PyStr ''<|pad|>''])
       (AllowedSet (set ALL_SPECIAL_TOKENS))
     = Inl (NameError ''subs'')"
proof -
  let ?env = "\<lparr>env_debug = True, env_os = False, env_subs = Some [''<|pad|>'']\<rparr>"
  have reg: "enc_special_tokens (tkt_model example_tokenizer) = special_tokens_with_ids 2"
    by (simp add: model_example_tokenizer)
  have "map_of (special_items 2) (ALL_SPECIAL_TOKENS ! 2) = Some (2 + 2)"
    by (rule map_of_special_items) (simp add: length_ALL_SPECIAL_TOKENS)
  then have pad: "map_of (special_tokens_with_ids 2) ''<|pad|>'' = Some 4"
    by (simp add: special_tokens_with_ids_items ALL_SPECIAL_TOKENS_eq fixed_special_tokens_def)
  have mem: "''<|pad|>'' \<in> set ALL_SPECIAL_TOKENS"
    by (simp add: ALL_SPECIAL_TOKENS_eq fixed_special_tokens_def)
  have all_names: "convert_tokens_to_ids ?env example_tokenizer [PyStr ''<|pad|>'']
                     (AllowedSet (set ALL_SPECIAL_TOKENS)) = Inr [4]"
    using pad mem
    by (simp add: convert_tokens_to_ids_def model_example_tokenizer tkt_encode_def byte_encoder_def)
  have no_names: "convert_tokens_to_ids ?env example_tokenizer [PyStr ''<|pad|>''] (AllowedSet {})
                    = Inr [60, 124, 112, 97, 100, 124, 62]"
    by (simp add: convert_tokens_to_ids_def model_example_tokenizer tkt_encode_def byte_encoder_def)
  have unbound: "encode (module_env True) example_tokenizer (PyList [PyStr ''<|pad|>''])
                   (AllowedSet (set ALL_SPECIAL_TOKENS)) = Inl (NameError ''subs'')"
    by (simp add: encode_list convert_tokens_to_ids_module)
  note main = allowed_special_boolean_shorthand
    [of ?env example_tokenizer "[PyStr ''<|pad|>'']" "PyList [PyStr ''<|pad|>'']" 2]
  from main reg have
    "convert_tokens_to_ids ?env example_tokenizer [PyStr ''<|pad|>''] (AllowedBool True)
     = convert_tokens_to_ids ?env example_tokenizer [PyStr ''<|pad|>'']
         (AllowedSet (set ALL_SPECIAL_TOKENS))"
    by blast
  then have t:
    "convert_tokens_to_ids ?env example_tokenizer [PyStr ''<|pad|>''] (AllowedBool True) = Inr [4]"
    by (simp only: all_names)
  from main have
    "convert_tokens_to_ids ?env example_tokenizer [PyStr ''<|pad|>''] (AllowedBool False)
     = convert_tokens_to_ids ?env example_tokenizer [PyStr ''<|pad|>''] (AllowedSet {})"
    by blast
  then have f:
    "convert_tokens_to_ids ?env example_tokenizer [PyStr ''<|pad|>''] (AllowedBool False)
     = Inr [60, 124, 112, 97, 100, 124, 62]"
    by (simp only: no_names)
  from allowed_special_boolean_shorthand
    [of "module_env True" example_tokenizer "[]" "PyList [PyStr ''<|pad|>'']" 2] reg
  have "encode (module_env True) example_tokenizer (PyList [PyStr ''<|pad|>'']) (AllowedBool True)
        = encode (module_env True) example_tokenizer (PyList [PyStr ''<|pad|>''])
            (AllowedSet (set ALL_SPECIAL_TOKENS))"
    by blast
  then have u:
    "encode (module_env True) example_tokenizer (PyList [PyStr ''<|pad|>'']) (AllowedBool True)
     = Inl (NameError ''subs'')"
    by (simp only: unbound)
  from reg t all_names f no_names u unbound show ?thesis
    by blast
qed

text \<open>
  C1, as stated, asks that encoding a special-token literal with no special token allowed
  fail with \<^verbatim>\<open>DisallowedSpecialTokenError\<close>, and that with the token's name allowed it
  return the token's id alone. On the example model file the constructor raises
  \<^verbatim>\<open>TypeError\<close> (line 67) and \<^verbatim>\<open>encode\<close> is not reached. And the error the claim names is
  switched off: line 112 passes \<^verbatim>\<open>disallowed_special=set()\<close>. On the \<^verbatim>\<open>Encoding\<close> that lines
  79--84 describe for the table of two entries, \<^verbatim>\<open>encode_batch\<close> with the arguments of line
  112 for the registered literal \<^verbatim>\<open><|pad|>\<close> and no name allowed does not raise it, where
  \<^verbatim>\<open>encode\<close> with the registered names as \<^verbatim>\<open>disallowed_special\<close> does.
\<close>

theorem special_token_gating_counterexample:
  "then_call (FishTokenizer_init byte_core example_fs [''model'', ''tokenizer.tiktoken''])
     (\<lambda>tk. encode (module_env True) tk (PyStr ''<|pad|>'') (AllowedSet {}))
     = Inl (TypeError ''load_tiktoken_bpe'')
   \<and> ''<|pad|>'' \<in> set ALL_SPECIAL_TOKENS
   \<and> then_call
       (tkt_Encoding byte_core ''tokenizer'' FISH_TIKTOKEN_PATTERN [(''a'', 0), (''b'', 1)]
          (special_tokens_with_ids 2))
       (\<lambda>enc. tkt_encode_batch enc [''<|pad|>''] {} {})
     \<noteq> Inl DisallowedSpecialToken
   \<and> then_call
       (tkt_Encoding byte_core ''tokenizer'' FISH_TIKTOKEN_PATTERN [(''a'', 0), (''b'', 1)]
          (special_tokens_with_ids 2))
       (\<lambda>enc. tkt_encode enc ''<|pad|>'' {} (special_tokens_set enc))
     = Inl DisallowedSpecialToken"
proof -
  have mem: "''<|pad|>'' \<in> set ALL_SPECIAL_TOKENS"
    by (simp add: ALL_SPECIAL_TOKENS_eq fixed_special_tokens_def)
  let ?enc = "\<lparr>enc_name = ''tokenizer'', enc_pat_str = FISH_TIKTOKEN_PATTERN,
               enc_mergeable_ranks = [(''a'' :: bytes, 0 :: int), (''b'', 1)],
               enc_special_tokens = special_tokens_with_ids 2,
               enc_core = byte_encoder (special_tokens_with_ids 2)\<rparr>"
  have enc: "tkt_Encoding byte_core ''tokenizer'' FISH_TIKTOKEN_PATTERN [(''a'', 0), (''b'', 1)]
               (special_tokens_with_ids 2) = Inr ?enc"
    by (simp add: tkt_Encoding_def byte_core_def)
  have names: "special_tokens_set ?enc = set ALL_SPECIAL_TOKENS"
    by (rule special_tokens_set_registry [of _ 2]) simp
  have off: "tkt_encode_batch ?enc [''<|pad|>''] {} {} \<noteq> Inl DisallowedSpecialToken"
    using tkt_encode_batch_errors [of ?enc "[''<|pad|>'']" "{}" DisallowedSpecialToken] by auto
  have on: "tkt_encode ?enc ''<|pad|>'' {} (special_tokens_set ?enc) = Inl DisallowedSpecialToken"
    unfolding names tkt_encode_def using mem by auto
  show ?thesis
    using mem off on by (simp add: FishTokenizer_init_raises then_call_def enc)
qed

text \<open>
  C1, amended. For every object, every argument (a registered special-token literal or not)
  and every \<^verbatim>\<open>allowed_special\<close>, \<^verbatim>\<open>encode\<close> and \<^verbatim>\<open>convert_tokens_to_ids\<close> do not fail with
  \<^verbatim>\<open>DisallowedSpecialTokenError\<close>: the one call of tiktoken's encoder (line 112) passes
  \<^verbatim>\<open>disallowed_special=set()\<close>, and with an empty \<^verbatim>\<open>disallowed_special\<close> tiktoken's
  \<^verbatim>\<open>encode_batch\<close> does not raise that error for any batch: \<^verbatim>\<open>encode\<close> makes no search for
  special-token literals and hands the text to the compiled encoder as it is. What
  \<^verbatim>\<open>encode\<close> returns, and which other error it raises, is no part of the statement.
\<close>

theorem encode_never_disallowed:
  "encode env self v a \<noteq> Inl DisallowedSpecialToken
   \<and> convert_tokens_to_ids env self tokens a \<noteq> Inl DisallowedSpecialToken
   \<and> tkt_encode_batch enc batch names {} \<noteq> Inl DisallowedSpecialToken
   \<and> tkt_encode enc s names {}
     = (case core_encode (enc_core enc) s names of
          None \<Rightarrow> Inl TiktokenError
        | Some ids \<Rightarrow> Inr ids)"
proof -
  have c: "convert_tokens_to_ids env self ts a \<noteq> Inl DisallowedSpecialToken" for ts
    using convert_tokens_to_ids_errors [of env self ts a DisallowedSpecialToken] by auto
  have e: "encode env self v a \<noteq> Inl DisallowedSpecialToken"
  proof (cases v)
    case (PyStr s)
    then show ?thesis by (simp add: encode_str)
  next
    case (PyList l)
    then show ?thesis by (simp add: encode_list c)
  next
    case (PyInt n)
    then show ?thesis by (simp add: encode_def)
  next
    case PyNone
    then show ?thesis by (simp add: encode_def)
  qed
  have b: "tkt_encode_batch enc batch names {} \<noteq> Inl DisallowedSpecialToken"
    using tkt_encode_batch_errors [of enc batch names DisallowedSpecialToken] by auto
  from c e b show ?thesis
    by (simp add: tkt_encode_no_check)
qed

text \<open>
  C2 asks that \<^verbatim>\<open>decode(encode(text))\<close> return \<^verbatim>\<open>text\<close>. No text comes back. On the example
  model file the constructor raises \<^verbatim>\<open>TypeError\<close> (line 67 calls \<^verbatim>\<open>load_tiktoken_bpe\<close>, a
  \<^verbatim>\<open>def\<close> of one parameter, through the instance). On any object, \<^verbatim>\<open>encode("hello")\<close> raises
  \<^verbatim>\<open>TypeError\<close> (line 119 calls \<^verbatim>\<open>tokenize\<close> the same way), and \<^verbatim>\<open>convert_tokens_to_ids\<close> on
  the chunks raises \<^verbatim>\<open>NameError\<close> (line 112 reads \<^verbatim>\<open>subs\<close>, which the module does not bind):
  \<^verbatim>\<open>decode\<close> is not reached.
\<close>

theorem roundtrip_fails_on_hello:
  "then_call (FishTokenizer_init byte_core example_fs [''model'', ''tokenizer.tiktoken''])
     (\<lambda>tk. then_call (encode (module_env True) tk (PyStr ''hello'') (AllowedBool True))
              (decode tk))
     = Inl (TypeError ''load_tiktoken_bpe'')
   \<and> then_call (encode (module_env True) self (PyStr ''hello'') (AllowedBool True)) (decode self)
     = Inl (TypeError ''tokenize'')
   \<and> tokenize ''hello'' = [''hello'']
   \<and> then_call (convert_tokens_to_ids (module_env True) self [PyStr ''hello''] (AllowedBool True))
       (decode self)
     = Inl (NameError ''subs'')"
proof -
  have "tokenize ''hello'' = [''hello'']"
    by (rule tokenize_single) (simp_all add: TIKTOKEN_MAX_ENCODE_CHARS_def)
  then show ?thesis
    by (simp add: then_call_def FishTokenizer_init_raises encode_str convert_tokens_to_ids_module)
qed

text \<open>
  C5 asks that \<^verbatim>\<open>encode\<close> of a text longer than 400,000 characters return the
  concatenation of \<^verbatim>\<open>encode(chunk)\<close> over its chunks. For the text of 400,001 letters
  \<^verbatim>\<open>a\<close>, which \<^verbatim>\<open>tokenize\<close> splits in two chunks, no id sequence is returned, for the text or
  for a chunk. On the example model file the constructor raises \<^verbatim>\<open>TypeError\<close> (line 67). On
  any object, \<^verbatim>\<open>encode\<close> of the text and of each chunk raises \<^verbatim>\<open>TypeError\<close> (line 119 calls
  \<^verbatim>\<open>tokenize\<close>, a \<^verbatim>\<open>def\<close> of one parameter, through the instance), and
  \<^verbatim>\<open>convert_tokens_to_ids\<close> on the chunks raises \<^verbatim>\<open>NameError\<close> (line 112 passes \<^verbatim>\<open>subs\<close>,
  which the module does not bind, where the chunks are the parameter \<^verbatim>\<open>tokens\<close>).
\<close>

theorem chunked_encode_fails_on_long_text:
  "tokenize (replicate 400001 CHR ''a'') = [replicate 400000 CHR ''a'', ''a'']
   \<and> then_call (FishTokenizer_init byte_core example_fs [''model'', ''tokenizer.tiktoken''])
       (\<lambda>tk. encode (module_env True) tk (PyStr (replicate 400001 CHR ''a'')) (AllowedBool True))
     = Inl (TypeError ''load_tiktoken_bpe'')
   \<and> encode (module_env True) self (PyStr (replicate 400001 CHR ''a'')) (AllowedBool True)
     = Inl (TypeError ''tokenize'')
   \<and> encode (module_env True) self (PyStr (replicate 400000 CHR ''a'')) (AllowedBool True)
     = Inl (TypeError ''tokenize'')
   \<and> encode (module_env True) self (PyStr ''a'') (AllowedBool True)
     = Inl (TypeError ''tokenize'')
   \<and> convert_tokens_to_ids (module_env True) self
       (map PyStr (tokenize (replicate 400001 CHR ''a''))) (AllowedBool True)
     = Inl (NameError ''subs'')"
  by (simp add: then_call_def FishTokenizer_init_raises encode_str convert_tokens_to_ids_module
      tokenize_example)

section \<open>Claims about loading and saving\<close>

text \<open>
  C7 asks that loading from a directory build the tokenizer from the file
  \<^verbatim>\<open>tokenizer.tiktoken\<close> inside it, and fail with \<^verbatim>\<open>ModelNotFoundError\<close> when the file is
  absent. \<^verbatim>\<open>from_pretrained\<close> does append \<^verbatim>\<open>tokenizer.tiktoken\<close> to a path that is not a file
  (line 152), but it returns no tokenizer: line 149 reads \<^verbatim>\<open>os.path.isfile\<close> and the module
  does not import \<^verbatim>\<open>os\<close>, so the call raises \<^verbatim>\<open>NameError\<close>, for the directory \<^verbatim>\<open>model\<close>, which
  holds the file, as for the directory \<^verbatim>\<open>empty\<close>, which does not. Where a caller has bound
  \<^verbatim>\<open>os\<close>, the constructor is reached and raises \<^verbatim>\<open>TypeError\<close> (line 67), for every path. No
  call fails with \<^verbatim>\<open>ModelNotFoundError\<close>, which no statement of the module raises.
\<close>

theorem from_pretrained_fails_on_directory:
  "from_pretrained (module_env True) byte_core example_fs [''model''] = Inl (NameError ''os'')
   \<and> from_pretrained (module_env True) byte_core example_fs [''empty''] = Inl (NameError ''os'')
   \<and> example_fs [''model''] = Some Dir
   \<and> example_fs [''model'', ''tokenizer.tiktoken''] = Some (File example_file)
   \<and> load_tiktoken_bpe example_fs ([''model''] @ [''tokenizer.tiktoken''])
     = Inr [(''a'', 0), (''b'', 1)]
   \<and> example_fs [''empty''] = Some Dir
   \<and> example_fs [''empty'', ''tokenizer.tiktoken''] = None
   \<and> from_pretrained (module_env dbg) lib fs p = Inl (NameError ''os'')
   \<and> from_pretrained (env\<lparr>env_os := True\<rparr>) lib fs p = Inl (TypeError ''load_tiktoken_bpe'')
   \<and> from_pretrained env lib fs p \<noteq> Inl ModelNotFoundError"
proof -
  have a: "from_pretrained (module_env dbg) lib fs p = Inl (NameError ''os'')" for dbg lib fs p
    by (simp add: from_pretrained_def module_env_def)
  have b: "from_pretrained (env\<lparr>env_os := True\<rparr>) lib fs p = Inl (TypeError ''load_tiktoken_bpe'')"
    by (simp add: from_pretrained_def FishTokenizer_init_raises)
  have c: "from_pretrained env lib fs p \<noteq> Inl ModelNotFoundError"
    by (simp add: from_pretrained_def FishTokenizer_init_raises)
  have d: "load_tiktoken_bpe example_fs ([''model''] @ [''tokenizer.tiktoken''])
           = Inr [(''a'', 0), (''b'', 1)]"
    using load_example by (simp add: example_path_def)
  have e: "example_fs [''model''] = Some Dir"
    "example_fs [''model'', ''tokenizer.tiktoken''] = Some (File example_file)"
    "example_fs [''empty''] = Some Dir"
    "example_fs [''empty'', ''tokenizer.tiktoken''] = None"
    by (simp_all add: example_fs_def)
  from a b c d e show ?thesis
    by blast
qed

text \<open>
  C8, as stated, asks that for every tokenizer constructed from a model file,
  \<^verbatim>\<open>save_pretrained\<close> write a model file that reproduces the original byte for byte. On the
  example model file the constructor raises \<^verbatim>\<open>TypeError\<close> (line 67) and nothing is written.
  And the table the file is loaded into does not determine the file: the file of \<^verbatim>\<open>model\<close>
  has a blank line between its two entries, which \<^verbatim>\<open>load_tiktoken_bpe\<close> skips (line 89), and
  it loads into the same table as the file of \<^verbatim>\<open>canon\<close>, which has none; the file of
  \<^verbatim>\<open>twice\<close> gives one token the ranks 0 and 1 and loads into a table of one entry (line 92
  keeps the last rank). \<^verbatim>\<open>save_pretrained\<close> writes from the table alone (lines 136--137): on
  an object that holds the table of the two entries it writes the file of \<^verbatim>\<open>canon\<close>, which
  is not the file of \<^verbatim>\<open>model\<close>.
\<close>

theorem save_does_not_reproduce_file_counterexample:
  "then_call (FishTokenizer_init byte_core example_fs [''model'', ''tokenizer.tiktoken''])
     (\<lambda>tk. then_call (save_pretrained tk example_fs [''out''])
              (\<lambda>fs'. Inr (fs' [''out'', ''tokenizer.tiktoken''])))
     = Inl (TypeError ''load_tiktoken_bpe'')
   \<and> load_tiktoken_bpe example_fs [''model'', ''tokenizer.tiktoken'']
     = Inr [(''a'', 0), (''b'', 1)]
   \<and> load_tiktoken_bpe example_fs [''canon'', ''tokenizer.tiktoken'']
     = Inr [(''a'', 0), (''b'', 1)]
   \<and> example_fs [''model'', ''tokenizer.tiktoken'']
     = Some (File (''YQ== 0'' @ [LF, LF] @ ''Yg== 1'' @ [LF]))
   \<and> example_fs [''canon'', ''tokenizer.tiktoken'']
     = Some (File (''YQ== 0'' @ [LF] @ ''Yg== 1'' @ [LF]))
   \<and> ''YQ== 0'' @ [LF, LF] @ ''Yg== 1'' @ [LF] \<noteq> ''YQ== 0'' @ [LF] @ ''Yg== 1'' @ [LF]
   \<and> example_fs [''twice'', ''tokenizer.tiktoken'']
     = Some (File (''YQ== 0'' @ [LF] @ ''YQ== 1'' @ [LF]))
   \<and> load_tiktoken_bpe example_fs [''twice'', ''tokenizer.tiktoken''] = Inr [(''a'', 1)]
   \<and> enc_mergeable_ranks (tkt_model example_tokenizer) = [(''a'', 0), (''b'', 1)]
   \<and> then_call (save_pretrained example_tokenizer example_fs [''out''])
       (\<lambda>fs'. Inr (fs' [''out'', ''tokenizer.tiktoken'']))
     = Inr (Some (File (''YQ== 0'' @ [LF] @ ''Yg== 1'' @ [LF])))"
proof -
  have ranks: "enc_mergeable_ranks (tkt_model example_tokenizer) = [(''a'', 0), (''b'', 1)]"
    by (simp add: model_example_tokenizer)
  from save_example obtain fs' where
    save: "save_pretrained example_tokenizer example_fs [''out''] = Inr fs'"
    by blast
  from save_pretrained_Inr [OF save] have
    "fs' [''out'', ''tokenizer.tiktoken''] = Some (File canonical_file)"
    by (simp add: ranks canonical_file_text)
  with save have a:
    "then_call (save_pretrained example_tokenizer example_fs [''out''])
       (\<lambda>fs'. Inr (fs' [''out'', ''tokenizer.tiktoken'']))
     = Inr (Some (File (''YQ== 0'' @ [LF] @ ''Yg== 1'' @ [LF])))"
    by (simp add: then_call_def canonical_file_def)
  have b: "then_call (FishTokenizer_init byte_core example_fs [''model'', ''tokenizer.tiktoken''])
             (\<lambda>tk. then_call (save_pretrained tk example_fs [''out''])
                      (\<lambda>fs'. Inr (fs' [''out'', ''tokenizer.tiktoken''])))
           = Inl (TypeError ''load_tiktoken_bpe'')"
    by (simp add: FishTokenizer_init_raises then_call_def)
  have c: "load_tiktoken_bpe example_fs [''model'', ''tokenizer.tiktoken'']
           = Inr [(''a'', 0), (''b'', 1)]"
    using load_example by (simp add: example_path_def)
  have d: "example_fs [''model'', ''tokenizer.tiktoken'']
           = Some (File (''YQ== 0'' @ [LF, LF] @ ''Yg== 1'' @ [LF]))"
    "example_fs [''canon'', ''tokenizer.tiktoken'']
           = Some (File (''YQ== 0'' @ [LF] @ ''Yg== 1'' @ [LF]))"
    "example_fs [''twice'', ''tokenizer.tiktoken'']
           = Some (File (''YQ== 0'' @ [LF] @ ''YQ== 1'' @ [LF]))"
    by (simp_all add: example_fs_def example_file_def canonical_file_def repeated_file_def)
  have e: "''YQ== 0'' @ [LF, LF] @ ''Yg== 1'' @ [LF] \<noteq> ''YQ== 0'' @ [LF] @ ''Yg== 1'' @ [LF]"
    by (simp add: LF_def)
  from a b c d e ranks load_canon load_twice show ?thesis
    by blast
qed

text \<open>
  C8, amended. Whenever \<^verbatim>\<open>save_pretrained\<close> succeeds on an object, the model file written
  holds one line \<^verbatim>\<open>base64(token) SPACE rank LF\<close> for each entry of the object's merge table,
  in the table's order, and nothing else. When that table is what \<^verbatim>\<open>load_tiktoken_bpe\<close>
  returns for a file which itself has that form (each token once, no token empty), the file
  written is that file, byte for byte. Loading the written file returns the table again
  when the table has each token once and no token empty. The special-tokens file written
  is \<^verbatim>\<open>json.dump\<close> of the object's dictionary of special tokens; for the dictionary of lines
  69--71 it is the JSON object whose members are the registered names in registration
  order, each on a line of its own indented by two spaces, with its id. A key made of
  characters from code 128 on is written as it is, without escapes. Whether the constructor
  returns such an object is no part of the statement.
\<close>

theorem save_pretrained_writes_table:
  assumes "save_pretrained self fs1 dir = Inr fs2"
  shows "fs2 (dir @ [''tokenizer.tiktoken''])
           = Some (File (tiktoken_file_text (enc_mergeable_ranks (tkt_model self))))
    \<and> (\<forall>fs p. load_tiktoken_bpe fs p = Inr (enc_mergeable_ranks (tkt_model self))
               \<and> (\<exists>ranks. fs p = Some (File (tiktoken_file_text ranks))
                            \<and> distinct (map fst ranks) \<and> (\<forall>e \<in> set ranks. fst e \<noteq> []))
               \<longrightarrow> fs2 (dir @ [''tokenizer.tiktoken'']) = fs p)
    \<and> (distinct (map fst (enc_mergeable_ranks (tkt_model self)))
        \<and> (\<forall>e \<in> set (enc_mergeable_ranks (tkt_model self)). fst e \<noteq> [])
        \<longrightarrow> load_tiktoken_bpe fs2 (dir @ [''tokenizer.tiktoken''])
            = Inr (enc_mergeable_ranks (tkt_model self)))
    \<and> fs2 (dir @ [''special_tokens.json''])
        = Some (File (json_dump_indent2 (all_special_tokens_with_ids self)))
    \<and> (\<forall>b. all_special_tokens_with_ids self = special_tokens_with_ids b
            \<longrightarrow> fs2 (dir @ [''special_tokens.json'']) = Some (File (special_tokens_json b)))
    \<and> (\<forall>k n. (\<forall>c \<in> set k. (128::nat) \<le> of_char c)
              \<longrightarrow> json_dump_indent2 [(k, n)]
                  = ''{'' @ [LF] @ ''  '' @ [CHR 0x22] @ k @ [CHR 0x22] @ '': '' @ str_nat n
                    @ [LF] @ ''}'')"
proof -
  let ?ranks = "enc_mergeable_ranks (tkt_model self)"
  let ?file = "dir @ [''tokenizer.tiktoken'']"
  from save_pretrained_Inr [OF assms] have
    model: "fs2 ?file = Some (File (tiktoken_file_text ?ranks))"
    and json: "fs2 (dir @ [''special_tokens.json''])
               = Some (File (json_dump_indent2 (all_special_tokens_with_ids self)))"
    by auto
  have same: "fs2 ?file = fs p"
    if load: "load_tiktoken_bpe fs p = Inr ?ranks"
      and form: "fs p = Some (File (tiktoken_file_text ranks))" "distinct (map fst ranks)"
        "\<forall>e \<in> set ranks. fst e \<noteq> []" for fs p ranks
  proof -
    from form have "load_tiktoken_bpe fs p = Inr ranks"
      by (rule load_canonical_file)
    with load have "ranks = ?ranks" by simp
    with model form(1) show ?thesis by simp
  qed
  have again: "load_tiktoken_bpe fs2 ?file = Inr ?ranks"
    if "distinct (map fst ?ranks)" "\<forall>e \<in> set ?ranks. fst e \<noteq> []"
    using model that by (rule load_canonical_file)
  have special: "fs2 (dir @ [''special_tokens.json'']) = Some (File (special_tokens_json b))"
    if "all_special_tokens_with_ids self = special_tokens_with_ids b" for b
    using json that by (simp add: special_tokens_with_ids_items json_dump_special_items)
  have plain: "json_dump_indent2 [(k, n)]
               = ''{'' @ [LF] @ ''  '' @ [CHR 0x22] @ k @ [CHR 0x22] @ '': '' @ str_nat n
                 @ [LF] @ ''}''"
    if "\<forall>c \<in> set k. (128::nat) \<le> of_char c" for k n
  proof -
    have "concat (map json_escape_char k) = k"
      using that by (intro concat_map_single json_non_ascii) simp
    then show ?thesis
      by (simp add: json_dump_indent2_def json_string_def)
  qed
  from model same again json special plain show ?thesis
    by blast
qed

theorem save_pretrained_writes_table_witness:
  "\<exists>fs2.
     save_pretrained example_tokenizer example_fs [''out''] = Inr fs2
     \<and> enc_mergeable_ranks (tkt_model example_tokenizer) = [(''a'', 0), (''b'', 1)]
     \<and> load_tiktoken_bpe example_fs [''canon'', ''tokenizer.tiktoken'']
       = Inr [(''a'', 0), (''b'', 1)]
     \<and> example_fs [''canon'', ''tokenizer.tiktoken'']
       = Some (File (tiktoken_file_text [(''a'', 0), (''b'', 1)]))
     \<and> fs2 [''out'', ''tokenizer.tiktoken''] = Some (File (''YQ== 0'' @ [LF] @ ''Yg== 1'' @ [LF]))
     \<and> fs2 [''out'', ''tokenizer.tiktoken''] = example_fs [''canon'', ''tokenizer.tiktoken'']
     \<and> load_tiktoken_bpe fs2 [''out'', ''tokenizer.tiktoken''] = Inr [(''a'', 0), (''b'', 1)]
     \<and> all_special_tokens_with_ids example_tokenizer = special_tokens_with_ids 2
     \<and> fs2 [''out'', ''special_tokens.json''] = Some (File (special_tokens_json 2))
     \<and> (128::nat) \<le> of_char (CHR 0xE9)
     \<and> json_dump_indent2 [([CHR 0xE9], 7)]
       = ''{'' @ [LF] @ ''  '' @ [CHR 0x22] @ [CHR 0xE9] @ [CHR 0x22] @ '': 7'' @ [LF] @ ''}''"
proof -
  let ?p = "[''canon'', ''tokenizer.tiktoken'']"
  let ?ranks = "[(''a'' :: bytes, 0 :: int), (''b'', 1)]"
  from save_example obtain fs2 where
    save: "save_pretrained example_tokenizer example_fs [''out''] = Inr fs2"
    by blast
  note main = save_pretrained_writes_table [OF save]
  have ranks: "enc_mergeable_ranks (tkt_model example_tokenizer) = ?ranks"
    by (simp add: model_example_tokenizer)
  have reg: "all_special_tokens_with_ids example_tokenizer = special_tokens_with_ids 2"
    by (rule registry_example_tokenizer)
  have orig: "example_fs ?p = Some (File (tiktoken_file_text ?ranks))"
    by (simp add: example_fs_def canonical_file_text)
  have canon: "\<exists>ranks. example_fs ?p = Some (File (tiktoken_file_text ranks))
                 \<and> distinct (map fst ranks) \<and> (\<forall>e \<in> set ranks. fst e \<noteq> [])"
    using orig by (intro exI [of _ ?ranks]) simp
  have loaded: "load_tiktoken_bpe example_fs ?p = Inr (enc_mergeable_ranks (tkt_model example_tokenizer))"
    by (simp add: ranks load_canon)
  have good: "distinct (map fst (enc_mergeable_ranks (tkt_model example_tokenizer)))
              \<and> (\<forall>e \<in> set (enc_mergeable_ranks (tkt_model example_tokenizer)). fst e \<noteq> [])"
    by (simp add: ranks)
  have big: "\<forall>c \<in> set [CHR 0xE9]. (128::nat) \<le> of_char c"
    by simp
  from main loaded canon have "fs2 ([''out''] @ [''tokenizer.tiktoken'']) = example_fs ?p"
    by blast
  then have same: "fs2 [''out'', ''tokenizer.tiktoken''] = example_fs ?p"
    by simp
  from main good have
    "load_tiktoken_bpe fs2 ([''out''] @ [''tokenizer.tiktoken''])
     = Inr (enc_mergeable_ranks (tkt_model example_tokenizer))"
    by blast
  then have again: "load_tiktoken_bpe fs2 [''out'', ''tokenizer.tiktoken''] = Inr ?ranks"
    by (simp add: ranks)
  from main have
    "fs2 ([''out''] @ [''tokenizer.tiktoken''])
     = Some (File (tiktoken_file_text (enc_mergeable_ranks (tkt_model example_tokenizer))))"
    by blast
  then have "fs2 [''out'', ''tokenizer.tiktoken''] = Some (File canonical_file)"
    by (simp add: ranks canonical_file_text)
  then have written:
    "fs2 [''out'', ''tokenizer.tiktoken''] = Some (File (''YQ== 0'' @ [LF] @ ''Yg== 1'' @ [LF]))"
    by (simp add: canonical_file_def)
  from main reg have
    "fs2 ([''out''] @ [''special_tokens.json'']) = Some (File (special_tokens_json 2))"
    by blast
  then have special: "fs2 [''out'', ''special_tokens.json''] = Some (File (special_tokens_json 2))"
    by simp
  from main big have
    "json_dump_indent2 [([CHR 0xE9], 7)]
     = ''{'' @ [LF] @ ''  '' @ [CHR 0x22] @ [CHR 0xE9] @ [CHR 0x22] @ '': '' @ str_nat 7
       @ [LF] @ ''}''"
    by blast
  then have esc: "json_dump_indent2 [([CHR 0xE9], 7)]
     = ''{'' @ [LF] @ ''  '' @ [CHR 0x22] @ [CHR 0xE9] @ [CHR 0x22] @ '': 7'' @ [LF] @ ''}''"
    by (simp add: str_nat.simps digit_char_def)
  have big1: "(128::nat) \<le> of_char (CHR 0xE9)"
    by simp
  from save ranks load_canon orig written same again reg special big1 esc show ?thesis
    by blast
qed

end
